theory Spec2Isabelle
  imports Main "HOL-Library.Sublist"
begin

section \<open>Message queue (components/message-queue.ts)\<close>

text \<open>
  The class holds a JavaScript array \<open>messages\<close> and a read-only \<open>maxSize\<close>.
  The array is a list whose head is the oldest record; \<open>maxSize\<close> is a number and is
  kept as an \<open>int\<close> so that the constructor's check \<open>maxSize <= 0\<close> is a branch.
\<close>

record 'm MessageQueue =
  messages :: "'m list"
  maxSize :: int

text \<open>The constructor throws for a capacity that is not positive.\<close>

definition new_MessageQueue :: "int \<Rightarrow> string + 'm MessageQueue" where
  "new_MessageQueue n =
     (if n \<le> 0 then Inl ''Queue max size must be greater than 0''
      else Inr \<lparr>messages = [], maxSize = n\<rparr>)"

text \<open>
  \<open>enqueue\<close>: when \<open>messages.length >= maxSize\<close> the array is shifted (\<open>shift()\<close> on an
  empty array leaves it empty, as \<open>tl []\<close> does) and \<open>wasDropped\<close> is set; the record is
  pushed in every case; the result is \<open>!wasDropped\<close>.
\<close>

definition enqueue :: "'m \<Rightarrow> 'm MessageQueue \<Rightarrow> bool \<times> 'm MessageQueue" where
  "enqueue m q =
     (let wasDropped = (int (length (messages q)) \<ge> maxSize q);
          kept = (if wasDropped then tl (messages q) else messages q)
      in (\<not> wasDropped, q\<lparr>messages := kept @ [m]\<rparr>))"

text \<open>\<open>dequeue\<close>: \<open>shift() || null\<close>; records are objects, hence never falsy.\<close>

definition dequeue :: "'m MessageQueue \<Rightarrow> 'm option \<times> 'm MessageQueue" where
  "dequeue q =
     (case messages q of
        [] \<Rightarrow> (None, q)
      | x # xs \<Rightarrow> (Some x, q\<lparr>messages := xs\<rparr>))"

text \<open>\<open>dequeueBatch\<close>: empty for \<open>size <= 0\<close>, else \<open>splice(0, min(size, length))\<close>.\<close>

definition dequeueBatch :: "int \<Rightarrow> 'm MessageQueue \<Rightarrow> 'm list \<times> 'm MessageQueue" where
  "dequeueBatch n q =
     (if n \<le> 0 then ([], q)
      else let batchSize = nat (min n (int (length (messages q))))
           in (take batchSize (messages q), q\<lparr>messages := drop batchSize (messages q)\<rparr>))"

definition size_q :: "'m MessageQueue \<Rightarrow> nat" where
  "size_q q = length (messages q)"

definition isEmpty :: "'m MessageQueue \<Rightarrow> bool" where
  "isEmpty q = (length (messages q) = 0)"

definition isFull :: "'m MessageQueue \<Rightarrow> bool" where
  "isFull q = (int (length (messages q)) \<ge> maxSize q)"

definition getMaxSize :: "'m MessageQueue \<Rightarrow> int" where
  "getMaxSize q = maxSize q"

subsection \<open>Sequences of queue operations\<close>

text \<open>
  A caller's use of the queue is a list of operations; running it records what every
  call returned, in call order.
\<close>

datatype 'm qop = Enqueue 'm | Dequeue | DequeueBatch int

datatype 'm qres = Enqueued bool | Dequeued "'m option" | Batch "'m list"

fun run_ops :: "'m qop list \<Rightarrow> 'm MessageQueue \<Rightarrow> 'm qres list \<times> 'm MessageQueue" where
  "run_ops [] q = ([], q)"
| "run_ops (Enqueue m # ops) q =
     (let (r, q1) = enqueue m q; (rs, q2) = run_ops ops q1 in (Enqueued r # rs, q2))"
| "run_ops (Dequeue # ops) q =
     (let (r, q1) = dequeue q; (rs, q2) = run_ops ops q1 in (Dequeued r # rs, q2))"
| "run_ops (DequeueBatch n # ops) q =
     (let (r, q1) = dequeueBatch n q; (rs, q2) = run_ops ops q1 in (Batch r # rs, q2))"

text \<open>The records handed to \<open>enqueue\<close>, in call order.\<close>

fun enqueued :: "'m qop list \<Rightarrow> 'm list" where
  "enqueued [] = []"
| "enqueued (Enqueue m # ops) = m # enqueued ops"
| "enqueued (_ # ops) = enqueued ops"

text \<open>The records handed out by \<open>dequeue\<close> and \<open>dequeueBatch\<close>, in the order received.\<close>

fun removed :: "'m qres list \<Rightarrow> 'm list" where
  "removed [] = []"
| "removed (Dequeued (Some x) # rs) = x # removed rs"
| "removed (Batch xs # rs) = xs @ removed rs"
| "removed (_ # rs) = removed rs"

text \<open>The number of \<open>enqueue\<close> calls that returned \<open>false\<close>.\<close>

fun drops :: "'m qres list \<Rightarrow> nat" where
  "drops [] = 0"
| "drops (Enqueued False # rs) = Suc (drops rs)"
| "drops (_ # rs) = drops rs"

text \<open>Whether a sequence contains no dequeue of either kind.\<close>

fun only_enqueues :: "'m qop list \<Rightarrow> bool" where
  "only_enqueues [] = True"
| "only_enqueues (Enqueue _ # ops) = only_enqueues ops"
| "only_enqueues (_ # ops) = False"

section \<open>Circuit breaker (components/circuit-breaker.ts)\<close>

text \<open>
  Times are JavaScript time values: integer milliseconds since the epoch. Every
  \<open>Date.now()\<close> and \<open>new Date()\<close> of the source is an explicit argument of the model,
  so two reads of the clock inside one call may differ. The numeric configuration and the
  counters are integers.
\<close>

datatype CircuitBreakerState = Closed | Open | HalfOpen

record CircuitBreakerConfig =
  failureThreshold :: int
  resetTimeout :: int
  monitoringPeriod :: int

record CircuitBreaker =
  state :: CircuitBreakerState
  failureCount :: int
  successCount :: int
  lastFailureTime :: "int option"
  nextAttemptTime :: "int option"
  monitoringWindowStart :: int
  config :: CircuitBreakerConfig

record CircuitBreakerMetrics =
  m_state :: CircuitBreakerState
  m_failureCount :: int
  m_successCount :: int
  m_lastFailureTime :: "int option"
  m_nextAttemptTime :: "int option"

text \<open>
  The constructor: the field initialisers run first (\<open>monitoringWindowStart = Date.now()\<close>,
  here \<open>t0\<close>), then the three checks, each of which throws.
\<close>

definition new_CircuitBreaker :: "int \<Rightarrow> CircuitBreakerConfig \<Rightarrow> string + CircuitBreaker" where
  "new_CircuitBreaker t0 cfg =
     (if failureThreshold cfg \<le> 0 then Inl ''Failure threshold must be greater than 0''
      else if resetTimeout cfg \<le> 0 then Inl ''Reset timeout must be greater than 0''
      else if monitoringPeriod cfg \<le> 0 then Inl ''Monitoring period must be greater than 0''
      else Inr \<lparr>state = Closed, failureCount = 0, successCount = 0,
                lastFailureTime = None, nextAttemptTime = None,
                monitoringWindowStart = t0, config = cfg\<rparr>)"

definition checkMonitoringWindow :: "int \<Rightarrow> CircuitBreaker \<Rightarrow> CircuitBreaker" where
  "checkMonitoringWindow now b =
     (if now - monitoringWindowStart b \<ge> monitoringPeriod (config b) then
        (let b1 = b\<lparr>monitoringWindowStart := now\<rparr>
         in if state b1 = Closed then b1\<lparr>failureCount := 0, successCount := 0\<rparr> else b1)
      else b)"

definition getState :: "int \<Rightarrow> CircuitBreaker \<Rightarrow> CircuitBreakerState \<times> CircuitBreaker" where
  "getState now b = (let b1 = checkMonitoringWindow now b in (state b1, b1))"

definition getMetrics :: "int \<Rightarrow> CircuitBreaker \<Rightarrow> CircuitBreakerMetrics \<times> CircuitBreaker" where
  "getMetrics now b =
     (let b1 = checkMonitoringWindow now b
      in (\<lparr>m_state = state b1, m_failureCount = failureCount b1,
            m_successCount = successCount b1, m_lastFailureTime = lastFailureTime b1,
            m_nextAttemptTime = nextAttemptTime b1\<rparr>, b1))"

definition onSuccess :: "CircuitBreaker \<Rightarrow> CircuitBreaker" where
  "onSuccess b =
     (let b1 = b\<lparr>successCount := successCount b + 1\<rparr>
      in if state b1 = HalfOpen
         then b1\<lparr>state := Closed, failureCount := 0, nextAttemptTime := None\<rparr>
         else b1)"

definition shouldAttemptReset :: "int \<Rightarrow> CircuitBreaker \<Rightarrow> bool" where
  "shouldAttemptReset now b =
     (case nextAttemptTime b of None \<Rightarrow> True | Some t \<Rightarrow> now \<ge> t)"

text \<open>
  \<open>backoffTime\<close> is the local constant of \<open>setNextAttemptTime\<close>:
  \<open>resetTimeout * Math.min(Math.pow(2, Math.max(0, failureCount - failureThreshold)), 8)\<close>.
  The exponent is an integer that is at least 0, so the power is the exact power of two
  (a float power too large to represent is \<open>Infinity\<close>, and \<open>Math.min\<close> gives 8 for
  it as for the exact value).
\<close>

definition backoffTime :: "CircuitBreaker \<Rightarrow> int" where
  "backoffTime b =
     (let backoffMultiplier =
            (2::int) ^ nat (max 0 (failureCount b - failureThreshold (config b)))
      in resetTimeout (config b) * min backoffMultiplier 8)"

definition setNextAttemptTime :: "int \<Rightarrow> CircuitBreaker \<Rightarrow> CircuitBreaker" where
  "setNextAttemptTime now b = b\<lparr>nextAttemptTime := Some (now + backoffTime b)\<rparr>"

text \<open>
  \<open>onFailure\<close> reads the clock twice: \<open>new Date()\<close> for \<open>lastFailureTime\<close> and,
  when the circuit opens, \<open>Date.now()\<close> inside \<open>setNextAttemptTime\<close>.
\<close>

definition onFailure :: "int \<Rightarrow> int \<Rightarrow> CircuitBreaker \<Rightarrow> CircuitBreaker" where
  "onFailure stamp now b =
     (let b1 = b\<lparr>failureCount := failureCount b + 1, lastFailureTime := Some stamp\<rparr>
      in if state b1 = HalfOpen then setNextAttemptTime now (b1\<lparr>state := Open\<rparr>)
         else if state b1 = Closed \<and> failureCount b1 \<ge> failureThreshold (config b1)
              then setNextAttemptTime now (b1\<lparr>state := Open\<rparr>)
         else b1)"

text \<open>The four clock reads of one \<open>execute\<close> call, in program order.\<close>

record exec_clock =
  at_window :: int
  at_gate :: int
  at_stamp :: int
  at_backoff :: int

text \<open>
  What \<open>execute\<close> throws: its own \<open>Error('Circuit breaker is open')\<close>, or the
  operation's error, rethrown unchanged.
\<close>

datatype 'e breaker_error = BreakerOpen | OperationError 'e

text \<open>
  \<open>execute_gate\<close> is the part of \<open>execute\<close> before the \<open>try\<close> block: the window
  check, then the test of the \<open>Open\<close> state. \<open>None\<close> is the throw; \<open>Some b\<close> is the
  breaker with which the operation is awaited.
\<close>

definition execute_gate :: "exec_clock \<Rightarrow> CircuitBreaker \<Rightarrow> CircuitBreaker \<times> CircuitBreaker option" where
  "execute_gate clk b =
     (let b1 = checkMonitoringWindow (at_window clk) b
      in if state b1 = Open then
           (if shouldAttemptReset (at_gate clk) b1
            then (b1, Some (b1\<lparr>state := HalfOpen\<rparr>))
            else (b1, None))
         else (b1, Some b1))"

text \<open>
  The awaited operation acts on the world outside the breaker: it maps a world \<open>'w\<close> to
  its outcome (rejection \<open>Inl\<close>, value \<open>Inr\<close>) and the world it leaves. \<open>execute\<close>
  returns what the caller sees, the world, and the breaker. One call is one step: calls
  that interleave during the \<open>await\<close> are outside this model.
\<close>

definition execute ::
  "exec_clock \<Rightarrow> ('w \<Rightarrow> ('e + 'a) \<times> 'w) \<Rightarrow> 'w \<Rightarrow> CircuitBreaker
     \<Rightarrow> ('e breaker_error + 'a) \<times> 'w \<times> CircuitBreaker" where
  "execute clk operation w b =
     (case execute_gate clk b of
        (b1, None) \<Rightarrow> (Inl BreakerOpen, w, b1)
      | (b1, Some b2) \<Rightarrow>
          (case operation w of
             (Inr result, w1) \<Rightarrow> (Inr result, w1, onSuccess b2)
           | (Inl error, w1) \<Rightarrow>
               (Inl (OperationError error), w1, onFailure (at_stamp clk) (at_backoff clk) b2)))"

subsection \<open>Histories of a breaker\<close>

text \<open>
  The breaker reacts only to whether the operation resolved or rejected. A call whose
  operation has outcome \<open>ok\<close> is \<open>execute\<close> on the operation that returns just that.
\<close>

definition settled :: "bool \<Rightarrow> unit \<Rightarrow> (unit + unit) \<times> unit" where
  "settled ok w = (if ok then Inr () else Inl (), w)"

datatype breaker_call = Execute exec_clock bool | GetState int | GetMetrics int

fun call :: "breaker_call \<Rightarrow> CircuitBreaker \<Rightarrow> CircuitBreaker" where
  "call (Execute clk ok) b = snd (snd (execute clk (settled ok) () b))"
| "call (GetState now) b = snd (getState now b)"
| "call (GetMetrics now) b = snd (getMetrics now b)"

text \<open>A breaker is reachable when a constructor call and public calls produce it.\<close>

inductive reachable :: "CircuitBreaker \<Rightarrow> bool" where
  constructed: "new_CircuitBreaker t0 cfg = Inr b \<Longrightarrow> reachable b"
| called: "reachable b \<Longrightarrow> reachable (call c b)"

text \<open>
  The delays chosen along a history: each \<open>execute\<close> whose operation is invoked and
  rejects, and which leaves the circuit \<open>Open\<close>, contributes the distance from its
  clock read to the \<open>nextAttemptTime\<close> it set.
\<close>

fun open_delays :: "breaker_call list \<Rightarrow> CircuitBreaker \<Rightarrow> int list" where
  "open_delays [] b = []"
| "open_delays (Execute clk ok # cs) b =
     (case execute clk (settled ok) () b of
        (Inl (OperationError _), _, b') \<Rightarrow>
          (case (state b', nextAttemptTime b') of
             (Open, Some t) \<Rightarrow> (t - at_backoff clk) # open_delays cs b'
           | _ \<Rightarrow> open_delays cs b')
      | (_, _, b') \<Rightarrow> open_delays cs b')"
| "open_delays (c # cs) b = open_delays cs (call c b)"

text \<open>A history in which no operation resolves.\<close>

fun rejects :: "breaker_call \<Rightarrow> bool" where
  "rejects (Execute clk ok) = (\<not> ok)"
| "rejects _ = True"

text \<open>
  The delay chosen for a failure count \<open>k\<close> under a configuration, and the facts
  about counters that every reachable breaker satisfies.
\<close>

definition delay_for :: "CircuitBreakerConfig \<Rightarrow> int \<Rightarrow> int" where
  "delay_for cfg k = resetTimeout cfg * min ((2::int) ^ nat (max 0 (k - failureThreshold cfg))) 8"

definition breaker_inv :: "CircuitBreaker \<Rightarrow> bool" where
  "breaker_inv b =
     (0 < failureThreshold (config b) \<and> 0 < resetTimeout (config b)
      \<and> 0 < monitoringPeriod (config b)
      \<and> (state b = Closed \<longrightarrow> 0 \<le> failureCount b \<and> failureCount b < failureThreshold (config b))
      \<and> (state b \<noteq> Closed \<longrightarrow> failureThreshold (config b) \<le> failureCount b)
      \<and> (state b = Open \<longrightarrow> nextAttemptTime b \<noteq> None))"

section \<open>Error classifier (utils/error-handler.ts)\<close>

text \<open>
  A string is a list of characters. \<open>str_includes\<close> is \<open>String.prototype.includes\<close>: the
  second string occurs in the first as a contiguous block. \<open>toLowerCase\<close> maps the
  letters \<open>A\<close> to \<open>Z\<close> to lower case and leaves every other character as it is; the
  properties below speak about the lower-cased text, whatever produced it.
\<close>

fun str_includes :: "string \<Rightarrow> string \<Rightarrow> bool" where
  "str_includes [] sub = (sub = [])"
| "str_includes (c # cs) sub = (prefix sub (c # cs) \<or> str_includes cs sub)"

definition lowerChar :: "char \<Rightarrow> char" where
  "lowerChar c =
     (case map_of (zip ''ABCDEFGHIJKLMNOPQRSTUVWXYZ'' ''abcdefghijklmnopqrstuvwxyz'') c of
        Some l \<Rightarrow> l
      | None \<Rightarrow> c)"

definition toLowerCase :: "string \<Rightarrow> string" where
  "toLowerCase s = map lowerChar s"

datatype ErrorCategory =
  configuration | connection | authentication | messageSending | serialization
  | queueOverflow | timeout | circuitBreaker | unknown

text \<open>The enum's string values, as they appear in fallback reasons.\<close>

fun category_value :: "ErrorCategory \<Rightarrow> string" where
  "category_value configuration = ''CONFIGURATION''"
| "category_value connection = ''CONNECTION''"
| "category_value authentication = ''AUTHENTICATION''"
| "category_value messageSending = ''MESSAGE_SENDING''"
| "category_value serialization = ''SERIALIZATION''"
| "category_value queueOverflow = ''QUEUE_OVERFLOW''"
| "category_value timeout = ''TIMEOUT''"
| "category_value circuitBreaker = ''CIRCUIT_BREAKER''"
| "category_value unknown = ''UNKNOWN''"

datatype ErrorSeverity = low | medium | high | critical

text \<open>
  An \<open>Error\<close> is represented by its \<open>message\<close>, the only part the classifier reads. The
  \<open>context\<close> argument is copied into the result unread and is left out.
\<close>

record CategorizedError =
  category :: ErrorCategory
  severity :: ErrorSeverity
  message :: string
  originalError :: string
  shouldRetry :: bool
  shouldFallback :: bool

definition isConfigurationError :: "string \<Rightarrow> bool" where
  "isConfigurationError m =
     (str_includes m ''configuration'' \<or> str_includes m ''invalid'' \<or> str_includes m ''missing''
      \<or> (str_includes m ''broker'' \<and> str_includes m ''format'')
      \<or> (str_includes m ''topic'' \<and> str_includes m ''empty'')
      \<or> (str_includes m ''client id'' \<and> str_includes m ''empty''))"

definition isAuthenticationError :: "string \<Rightarrow> bool" where
  "isAuthenticationError m =
     (str_includes m ''authentication'' \<or> str_includes m ''unauthorized'' \<or> str_includes m ''sasl''
      \<or> str_includes m ''credentials'' \<or> str_includes m ''login'' \<or> str_includes m ''auth'')"

definition isConnectionError :: "string \<Rightarrow> bool" where
  "isConnectionError m =
     (str_includes m ''connection'' \<or> str_includes m ''connect'' \<or> str_includes m ''network''
      \<or> (str_includes m ''broker'' \<and> str_includes m ''unavailable'')
      \<or> str_includes m ''econnrefused'' \<or> str_includes m ''enotfound''
      \<or> str_includes m ''ehostunreach'')"

definition isTimeoutError :: "string \<Rightarrow> bool" where
  "isTimeoutError m =
     (str_includes m ''timeout'' \<or> str_includes m ''timed out'' \<or> str_includes m ''etimedout'')"

definition isSerializationError :: "string \<Rightarrow> bool" where
  "isSerializationError m =
     (str_includes m ''serialization'' \<or> str_includes m ''json'' \<or> str_includes m ''parse''
      \<or> str_includes m ''stringify'' \<or> str_includes m ''invalid message format'')"

definition isCircuitBreakerError :: "string \<Rightarrow> bool" where
  "isCircuitBreakerError m =
     (str_includes m ''circuit breaker'' \<or> (str_includes m ''circuit'' \<and> str_includes m ''open''))"

definition isQueueOverflowError :: "string \<Rightarrow> bool" where
  "isQueueOverflowError m =
     ((str_includes m ''queue'' \<and> (str_includes m ''full'' \<or> str_includes m ''overflow''))
      \<or> str_includes m ''message dropped'')"

definition isMessageSendingError :: "string \<Rightarrow> bool" where
  "isMessageSendingError m =
     (str_includes m ''send'' \<or> str_includes m ''publish'' \<or> str_includes m ''produce''
      \<or> (str_includes m ''kafka'' \<and> str_includes m ''failed''))"

definition verdict ::
  "ErrorCategory \<Rightarrow> ErrorSeverity \<Rightarrow> string \<Rightarrow> string \<Rightarrow> bool \<Rightarrow> bool \<Rightarrow> CategorizedError" where
  "verdict c s text err retry fallback =
     \<lparr>category = c, severity = s, message = text, originalError = err,
      shouldRetry = retry, shouldFallback = fallback\<rparr>"

text \<open>\<open>categorizeError\<close>: the chain of \<open>if\<close> statements, in the order of the source.\<close>

definition categorizeError :: "string \<Rightarrow> CategorizedError" where
  "categorizeError error =
     (let errorMessage = toLowerCase error in
      if isConfigurationError errorMessage then
        verdict configuration critical ''Configuration error detected'' error False True
      else if isAuthenticationError errorMessage then
        verdict authentication high ''Authentication failed'' error False True
      else if isConnectionError errorMessage then
        verdict connection high ''Connection error detected'' error True True
      else if isTimeoutError errorMessage then
        verdict timeout medium ''Operation timeout'' error True True
      else if isSerializationError errorMessage then
        verdict serialization medium ''Message serialization failed'' error False False
      else if isCircuitBreakerError errorMessage then
        verdict circuitBreaker medium ''Circuit breaker is open'' error False True
      else if isQueueOverflowError errorMessage then
        verdict queueOverflow medium ''Message queue overflow'' error False True
      else if isMessageSendingError errorMessage then
        verdict messageSending medium ''Failed to send message to Kafka'' error True True
      else verdict unknown medium ''Unknown error occurred'' error True True)"

text \<open>\<open>handleError\<close> classifies and writes to the host logger, which is not modelled.\<close>

definition handleError :: "string \<Rightarrow> CategorizedError" where
  "handleError error = categorizeError error"

section \<open>Event builder (utils/segment-event-builder.ts)\<close>

text \<open>
  An optional string property is a \<open>string option\<close>. JavaScript treats both
  \<open>undefined\<close> and the empty string as false; \<open>truthy\<close> is that test and \<open>or_else\<close>
  is \<open>a || d\<close> for a string default.
\<close>

definition truthy :: "string option \<Rightarrow> bool" where
  "truthy a = (case a of None \<Rightarrow> False | Some s \<Rightarrow> s \<noteq> [])"

definition or_else :: "string option \<Rightarrow> string \<Rightarrow> string" where
  "or_else a d = (case a of None \<Rightarrow> d | Some s \<Rightarrow> if s = [] then d else s)"

text \<open>\<open>WorkflowExecuteMode\<close> is the union type of n8n-workflow; its members are strings.\<close>

datatype WorkflowExecuteMode =
  manual | trigger | webhook | error | retry | integrated | cli | internal | evaluation

fun mode_value :: "WorkflowExecuteMode \<Rightarrow> string" where
  "mode_value manual = ''manual''"
| "mode_value trigger = ''trigger''"
| "mode_value webhook = ''webhook''"
| "mode_value error = ''error''"
| "mode_value retry = ''retry''"
| "mode_value integrated = ''integrated''"
| "mode_value cli = ''cli''"
| "mode_value internal = ''internal''"
| "mode_value evaluation = ''evaluation''"

record INode =
  node_id :: string
  node_name :: string
  node_type :: string

record IWorkflowBase =
  wf_id :: "string option"
  wf_name :: "string option"
  nodes :: "INode list option"
  versionId :: "string option"

record NodeRef =
  ref_id :: string
  ref_name :: string

text \<open>
  The error of a run: \<open>err_name\<close> stands for \<open>error.name || error.constructor?.name || ''\<close>.
\<close>

record ExecutionError =
  err_name :: string
  err_message :: string
  err_stack :: "string option"
  err_node :: "NodeRef option"

text \<open>Of \<open>IRun\<close> the builder reads \<open>status\<close> and \<open>data.resultData.error\<close>.\<close>

record IRun =
  run_status :: "string option"
  run_error :: "ExecutionError option"

text \<open>A \<open>Date\<close> is its time value in milliseconds; invalid dates are not represented.\<close>

record WorkflowExecutionContext =
  executionId :: string
  workflowData :: IWorkflowBase
  mode :: WorkflowExecuteMode
  ctx_userId :: "string option"
  runData :: "IRun option"
  retryOf :: "string option"
  startedAt :: "int option"
  finishedAt :: "int option"

text \<open>
  What a build reads from outside its argument: the clock, \<open>uuidv4()\<close>, the constant
  \<open>N8N_VERSION\<close>, the process environment, and the runtime's \<open>Date\<close> formatting and
  parsing (\<open>parseDate\<close> is \<open>None\<close> where \<open>new Date(s).getTime()\<close> is \<open>NaN\<close>).
\<close>

record BuildEnv =
  clock_now :: int
  fresh_uuid :: string
  N8N_VERSION :: string
  NODE_ENV :: "string option"
  ENVIRONMENT :: "string option"
  HOSTNAME :: "string option"
  INSTANCE_ID :: "string option"
  N8N_PROCESS_TYPE :: "string option"
  toISOString :: "int \<Rightarrow> string"
  parseDate :: "string \<Rightarrow> int option"

record Dimensions =
  execution_mode :: string
  status :: "string option"
  version :: "string option"
  environment :: "string option"
  trigger_type :: "string option"
  workflow_name :: string
  error_type :: "string option"

record Flags =
  is_manual_execution :: bool
  is_retry :: bool

record Metrics =
  duration_ms :: "int option"
  node_count :: nat

record Involved =
  inv_role :: string
  inv_id :: string
  inv_id_type :: string

record Properties =
  trigger_node :: "string option"
  retry_of :: "string option"
  started_at :: string
  finished_at :: "string option"
  error_message :: "string option"
  error_stack :: "string option"
  error_node_id :: "string option"
  error_node_name :: "string option"
  workflow_version :: "string option"

record EventContext =
  app_name :: string
  app_version :: string
  library_name :: string
  library_version :: string
  instance_id :: string
  instance_type :: string
  n8n_execution_mode :: WorkflowExecuteMode
  n8n_instance_type :: string

record ExecutionLogMessage =
  msg_type :: string
  event :: string
  userId :: "string option"
  anonymousId :: "string option"
  timestamp :: string
  messageId :: string
  dimensions :: Dimensions
  flags :: Flags
  metrics :: Metrics
  tags :: "string list"
  involves :: "Involved list"
  properties :: Properties
  event_context :: EventContext

definition LIBRARY_NAME :: string where
  "LIBRARY_NAME = ''n8n-kafka-execution-logger''"

definition LIBRARY_VERSION :: string where
  "LIBRARY_VERSION = ''1.0.0''"

definition mapExecutionMode :: "WorkflowExecuteMode \<Rightarrow> string" where
  "mapExecutionMode m = mode_value m"

text \<open>
  \<open>mapExecutionStatus\<close>: \<open>'unknown'\<close> for a missing or empty status, else the table
  entry, else the status itself.
\<close>

definition statusMap :: "(string \<times> string) list" where
  "statusMap =
     [(''success'', ''success''), (''error'', ''error''), (''canceled'', ''cancelled''),
      (''cancelled'', ''cancelled''), (''crashed'', ''error''), (''waiting'', ''waiting''),
      (''running'', ''running'')]"

definition mapExecutionStatus :: "string option \<Rightarrow> string" where
  "mapExecutionStatus st =
     (if \<not> truthy st then ''unknown''
      else case map_of statusMap (the st) of Some v \<Rightarrow> v | None \<Rightarrow> the st)"

definition isManualExecution :: "WorkflowExecuteMode \<Rightarrow> bool" where
  "isManualExecution m = (m = manual)"

text \<open>The predicate of both \<open>find\<close> calls: the type contains \<open>trigger\<close> or \<open>Trigger\<close>.\<close>

definition isTriggerNode :: "INode \<Rightarrow> bool" where
  "isTriggerNode n =
     (str_includes (node_type n) ''trigger'' \<or> str_includes (node_type n) ''Trigger'')"

definition firstTriggerNode :: "IWorkflowBase \<Rightarrow> INode option" where
  "firstTriggerNode wd = (case nodes wd of None \<Rightarrow> None | Some ns \<Rightarrow> find isTriggerNode ns)"

definition determineTriggerType :: "IWorkflowBase \<Rightarrow> WorkflowExecuteMode \<Rightarrow> string" where
  "determineTriggerType wd m =
     (if m = manual then ''manual''
      else if m = webhook then ''webhook''
      else if m = cli then ''cli''
      else case firstTriggerNode wd of
             Some triggerNode \<Rightarrow>
               if str_includes (node_type triggerNode) ''cron''
                  \<or> str_includes (node_type triggerNode) ''schedule'' then ''schedule''
               else if str_includes (node_type triggerNode) ''webhook'' then ''webhook''
               else ''trigger''
           | None \<Rightarrow> mode_value m)"

definition findTriggerNode :: "IWorkflowBase \<Rightarrow> string option" where
  "findTriggerNode wd = map_option node_name (firstTriggerNode wd)"

definition calculateDuration :: "int option \<Rightarrow> int option \<Rightarrow> int option" where
  "calculateDuration s f =
     (case (s, f) of (Some a, Some b) \<Rightarrow> Some (b - a) | _ \<Rightarrow> None)"

text \<open>The builder's own \<open>categorizeError\<close>, which names the error type of a failed run.\<close>

definition builder_categorizeError :: "ExecutionError \<Rightarrow> string" where
  "builder_categorizeError e =
     (let errorName = err_name e; errorMessage = err_message e in
      if str_includes errorName ''NodeOperationError'' then ''NodeOperationError''
      else if str_includes errorName ''ValidationError'' then ''ValidationError''
      else if str_includes errorName ''ConnectionError'' then ''ConnectionError''
      else if str_includes errorName ''AuthenticationError'' then ''AuthenticationError''
      else if str_includes errorName ''TimeoutError'' then ''TimeoutError''
      else if str_includes errorMessage ''ECONNREFUSED'' then ''ConnectionRefused''
      else if str_includes errorMessage ''ETIMEDOUT'' then ''Timeout''
      else if str_includes errorMessage ''ENOTFOUND'' then ''DNSError''
      else if str_includes errorName ''Error'' then errorName
      else ''Unknown'')"

text \<open>\<open>substring(0, 8)\<close> is \<open>take 8\<close>: the two agree on ASCII execution ids.\<close>

definition generateAnonymousId :: "string \<Rightarrow> string" where
  "generateAnonymousId ex = ''anon_'' @ take 8 ex"

definition getEnvironment :: "BuildEnv \<Rightarrow> string" where
  "getEnvironment env =
     (if truthy (NODE_ENV env) then the (NODE_ENV env)
      else or_else (ENVIRONMENT env) ''development'')"

definition getInstanceId :: "BuildEnv \<Rightarrow> string" where
  "getInstanceId env =
     (if truthy (HOSTNAME env) then the (HOSTNAME env)
      else or_else (INSTANCE_ID env) ''unknown'')"

definition getInstanceType :: "BuildEnv \<Rightarrow> string" where
  "getInstanceType env = (if N8N_PROCESS_TYPE env = Some ''worker'' then ''worker'' else ''main'')"

definition extractWorkflowTags :: "IWorkflowBase \<Rightarrow> string list" where
  "extractWorkflowTags wd = []"

text \<open>
  \<open>buildBaseEvent\<close> reads the clock and draws a UUID, then fills the record. The
  property \<open>anonymousId\<close> is set only when \<open>context.userId\<close> is false.
\<close>

definition buildBaseEvent ::
  "BuildEnv \<Rightarrow> WorkflowExecutionContext \<Rightarrow> string \<Rightarrow> ExecutionLogMessage" where
  "buildBaseEvent env c eventName =
     (let stamp = toISOString env (clock_now env);
          uuid = fresh_uuid env
      in \<lparr>msg_type = ''track'',
          event = eventName,
          userId = ctx_userId c,
          anonymousId =
            (if truthy (ctx_userId c) then None else Some (generateAnonymousId (executionId c))),
          timestamp = stamp,
          messageId = uuid,
          dimensions =
            \<lparr>execution_mode = mapExecutionMode (mode c),
             status = None,
             version = Some (N8N_VERSION env),
             environment = Some (getEnvironment env),
             trigger_type = Some (determineTriggerType (workflowData c) (mode c)),
             workflow_name = or_else (wf_name (workflowData c)) ''Unnamed Workflow'',
             error_type = None\<rparr>,
          flags =
            \<lparr>is_manual_execution = isManualExecution (mode c),
             is_retry = truthy (retryOf c)\<rparr>,
          metrics =
            \<lparr>duration_ms = None,
             node_count = (case nodes (workflowData c) of None \<Rightarrow> 0 | Some ns \<Rightarrow> length ns)\<rparr>,
          tags = extractWorkflowTags (workflowData c),
          involves =
            [\<lparr>inv_role = ''WorkflowExecution'', inv_id = executionId c, inv_id_type = ''n8n''\<rparr>,
             \<lparr>inv_role = ''Workflow'', inv_id = or_else (wf_id (workflowData c)) [],
              inv_id_type = ''n8n''\<rparr>],
          properties =
            \<lparr>trigger_node = findTriggerNode (workflowData c),
             retry_of = retryOf c,
             started_at = or_else (map_option (toISOString env) (startedAt c)) stamp,
             finished_at = map_option (toISOString env) (finishedAt c),
             error_message = None,
             error_stack = None,
             error_node_id = None,
             error_node_name = None,
             workflow_version = versionId (workflowData c)\<rparr>,
          event_context =
            \<lparr>app_name = ''n8n'',
             app_version = N8N_VERSION env,
             library_name = LIBRARY_NAME,
             library_version = LIBRARY_VERSION,
             instance_id = getInstanceId env,
             instance_type = getInstanceType env,
             n8n_execution_mode = mode c,
             n8n_instance_type = getInstanceType env\<rparr>\<rparr>)"

definition buildWorkflowStartEvent ::
  "BuildEnv \<Rightarrow> WorkflowExecutionContext \<Rightarrow> ExecutionLogMessage" where
  "buildWorkflowStartEvent env c = buildBaseEvent env c ''Workflow Started''"

definition buildWorkflowCompleteEvent ::
  "BuildEnv \<Rightarrow> WorkflowExecutionContext \<Rightarrow> ExecutionLogMessage" where
  "buildWorkflowCompleteEvent env c =
     (let ev = buildBaseEvent env c ''Workflow Completed''
      in case runData c of
           Some run \<Rightarrow>
             ev\<lparr>dimensions := (dimensions ev)\<lparr>status := Some (mapExecutionStatus (run_status run))\<rparr>,
                metrics := (metrics ev)\<lparr>duration_ms := calculateDuration (startedAt c) (finishedAt c)\<rparr>\<rparr>
         | None \<Rightarrow> ev)"

definition buildWorkflowErrorEvent ::
  "BuildEnv \<Rightarrow> WorkflowExecutionContext \<Rightarrow> ExecutionLogMessage" where
  "buildWorkflowErrorEvent env c =
     (let ev0 = buildBaseEvent env c ''Workflow Failed'';
          ev1 = ev0\<lparr>dimensions := (dimensions ev0)\<lparr>status := Some ''error''\<rparr>\<rparr>;
          ev2 =
            (case Option.bind (runData c) run_error of
               Some e \<Rightarrow>
                 (let ev = ev1\<lparr>properties := (properties ev1)
                                 \<lparr>error_message := Some (err_message e), error_stack := err_stack e\<rparr>,
                              dimensions := (dimensions ev1)
                                 \<lparr>error_type := Some (builder_categorizeError e)\<rparr>\<rparr>
                  in case err_node e of
                       Some n \<Rightarrow>
                         ev\<lparr>properties := (properties ev)
                               \<lparr>error_node_id := Some (ref_id n),
                                error_node_name := Some (ref_name n)\<rparr>\<rparr>
                     | None \<Rightarrow> ev)
             | None \<Rightarrow> ev1)
      in case runData c of
           Some run \<Rightarrow>
             ev2\<lparr>metrics := (metrics ev2)\<lparr>duration_ms := calculateDuration (startedAt c) (finishedAt c)\<rparr>\<rparr>
         | None \<Rightarrow> ev2)"

definition buildWorkflowCancelEvent ::
  "BuildEnv \<Rightarrow> WorkflowExecutionContext \<Rightarrow> ExecutionLogMessage" where
  "buildWorkflowCancelEvent env c =
     (let ev0 = buildBaseEvent env c ''Workflow Cancelled'';
          ev1 = ev0\<lparr>dimensions := (dimensions ev0)\<lparr>status := Some ''cancelled''\<rparr>\<rparr>
      in case runData c of
           Some run \<Rightarrow>
             ev1\<lparr>metrics := (metrics ev1)\<lparr>duration_ms := calculateDuration (startedAt c) (finishedAt c)\<rparr>\<rparr>
         | None \<Rightarrow> ev1)"

text \<open>The four public build functions, by kind.\<close>

datatype event_kind = Started | Completed | Failed | Cancelled

fun build :: "event_kind \<Rightarrow> BuildEnv \<Rightarrow> WorkflowExecutionContext \<Rightarrow> ExecutionLogMessage" where
  "build Started = buildWorkflowStartEvent"
| "build Completed = buildWorkflowCompleteEvent"
| "build Failed = buildWorkflowErrorEvent"
| "build Cancelled = buildWorkflowCancelEvent"

text \<open>
  The validator's regular expression, anchored at both ends and case-insensitive:
  \<open>[0-9a-f]{8}-[0-9a-f]{4}-[1-5][0-9a-f]{3}-[89ab][0-9a-f]{3}-[0-9a-f]{12}\<close>.
\<close>

definition isHex :: "char \<Rightarrow> bool" where
  "isHex ch = (ch \<in> set ''0123456789abcdefABCDEF'')"

definition uuidRegex_test :: "string \<Rightarrow> bool" where
  "uuidRegex_test s =
     (length s = 36
      \<and> list_all isHex (take 8 s) \<and> s ! 8 = CHR ''-''
      \<and> list_all isHex (take 4 (drop 9 s)) \<and> s ! 13 = CHR ''-''
      \<and> s ! 14 \<in> set ''12345'' \<and> list_all isHex (take 3 (drop 15 s)) \<and> s ! 18 = CHR ''-''
      \<and> s ! 19 \<in> set ''89abAB'' \<and> list_all isHex (take 3 (drop 20 s)) \<and> s ! 23 = CHR ''-''
      \<and> list_all isHex (drop 24 s))"

definition validateEvent :: "BuildEnv \<Rightarrow> ExecutionLogMessage \<Rightarrow> bool" where
  "validateEvent env ev =
     (if msg_type ev \<noteq> ''track'' then False
      else if event ev = [] then False
      else if timestamp ev = [] then False
      else if messageId ev = [] then False
      else if \<not> truthy (userId ev) \<and> \<not> truthy (anonymousId ev) then False
      else if parseDate env (timestamp ev) = None then False
      else if \<not> uuidRegex_test (messageId ev) then False
      else True)"

subsection \<open>The fixtures of the builder's tests\<close>

text \<open>
  \<open>mockWorkflowData\<close> and \<open>mockContext\<close> are the fixtures of the builder's test
  suite. \<open>mockEnv\<close> is the environment those tests set up: the UUID and the version
  are the mocked ones and the environment variables are deleted. The clock stands at
  2023-01-01T12:00:00Z, and the runtime's date functions are given at the three instants
  the examples use: 1672567200000 is 2023-01-01T10:00:00.000Z, 1672567290000 is
  2023-01-01T10:01:30.000Z and 1672574400000 is 2023-01-01T12:00:00.000Z.
\<close>

definition mockWorkflowData :: IWorkflowBase where
  "mockWorkflowData =
     \<lparr>wf_id = Some ''workflow-123'', wf_name = Some ''Test Workflow'',
      nodes = Some [\<lparr>node_id = ''node-1'', node_name = ''Start'', node_type = ''n8n-nodes-base.start''\<rparr>,
                    \<lparr>node_id = ''node-2'', node_name = ''HTTP Request'',
                     node_type = ''n8n-nodes-base.httpRequest''\<rparr>],
      versionId = Some ''1''\<rparr>"

definition mockContext :: WorkflowExecutionContext where
  "mockContext =
     \<lparr>executionId = ''exec-456'', workflowData = mockWorkflowData, mode = manual,
      ctx_userId = Some ''user-789'', runData = None, retryOf = None,
      startedAt = Some 1672567200000, finishedAt = Some 1672567290000\<rparr>"

definition sample_dates :: "(int \<times> string) list" where
  "sample_dates =
     [(1672567200000, ''2023-01-01T10:00:00.000Z''),
      (1672567290000, ''2023-01-01T10:01:30.000Z''),
      (1672574400000, ''2023-01-01T12:00:00.000Z'')]"

definition mockEnv :: BuildEnv where
  "mockEnv =
     \<lparr>clock_now = 1672574400000,
      fresh_uuid = ''550e8400-e29b-41d4-a716-446655440000'',
      N8N_VERSION = ''1.0.0'',
      NODE_ENV = None, ENVIRONMENT = None, HOSTNAME = None, INSTANCE_ID = None,
      N8N_PROCESS_TYPE = None,
      toISOString = (\<lambda>t. case map_of sample_dates t of Some s \<Rightarrow> s | None \<Rightarrow> []),
      parseDate = map_of (map (\<lambda>(t, s). (s, t)) sample_dates)\<rparr>"

section \<open>Pipeline service (services/kafka-execution-logger.service.ts)\<close>

text \<open>
  The fallback log is the sequence of lines appended by \<open>logToFallback\<close> (one record)
  and \<open>logBatchToFallback\<close> (a batch), each with its reason, oldest first. File
  rotation, the line's time stamp and failing file operations (which the source catches
  and reports to the logger) are left out.
\<close>

datatype 'm fallback_line = Line string 'm | BatchLine string "'m list"

record 'm FallbackLog =
  fb_enabled :: bool
  fb_lines :: "'m fallback_line list"

definition logToFallback :: "'m \<Rightarrow> string \<Rightarrow> 'm FallbackLog \<Rightarrow> 'm FallbackLog" where
  "logToFallback m reason fb =
     (if \<not> fb_enabled fb then fb else fb\<lparr>fb_lines := fb_lines fb @ [Line reason m]\<rparr>)"

definition logBatchToFallback :: "'m list \<Rightarrow> string \<Rightarrow> 'm FallbackLog \<Rightarrow> 'm FallbackLog" where
  "logBatchToFallback ms reason fb =
     (if \<not> fb_enabled fb \<or> length ms = 0 then fb
      else fb\<lparr>fb_lines := fb_lines fb @ [BatchLine reason ms]\<rparr>)"

text \<open>
  Health metrics: the counters and gauges; the time stamps are left out. A queue depth
  is a length, hence a \<open>nat\<close>, so the check \<open>depth < 0\<close> of \<open>setQueueDepth\<close> never
  fires.
\<close>

record HealthMetrics =
  hm_successCount :: nat
  hm_failureCount :: nat
  queueDepth :: nat
  circuitBreakerState :: CircuitBreakerState

definition incrementSuccess :: "HealthMetrics \<Rightarrow> HealthMetrics" where
  "incrementSuccess h = h\<lparr>hm_successCount := hm_successCount h + 1\<rparr>"

definition incrementFailure :: "HealthMetrics \<Rightarrow> HealthMetrics" where
  "incrementFailure h = h\<lparr>hm_failureCount := hm_failureCount h + 1\<rparr>"

definition setQueueDepth :: "nat \<Rightarrow> HealthMetrics \<Rightarrow> HealthMetrics" where
  "setQueueDepth d h = h\<lparr>queueDepth := d\<rparr>"

definition setCircuitBreakerState :: "CircuitBreakerState \<Rightarrow> HealthMetrics \<Rightarrow> HealthMetrics" where
  "setCircuitBreakerState st h = h\<lparr>circuitBreakerState := st\<rparr>"

text \<open>
  The producer wrapper (components/kafka-producer-wrapper.ts). Its state is the flag
  \<open>connected\<close>, which is the world of the operations given to the breaker. What the
  client library does is an input: \<open>None\<close> for success, \<open>Some text\<close> for an error
  with that message (raised by the library, by \<open>JSON.stringify\<close> or by the time-out).
  The wrapper rethrows with a prefix; \<open>connect\<close> clears the flag when it fails.
\<close>

definition connect :: "string option \<Rightarrow> bool \<Rightarrow> (string + unit) \<times> bool" where
  "connect library isConnected =
     (if isConnected then (Inr (), isConnected)
      else case library of
             None \<Rightarrow> (Inr (), True)
           | Some errorMessage \<Rightarrow> (Inl (''Failed to connect to Kafka: '' @ errorMessage), False))"

definition send :: "('m \<Rightarrow> string option) \<Rightarrow> 'm \<Rightarrow> bool \<Rightarrow> (string + unit) \<times> bool" where
  "send library m isConnected =
     (if \<not> isConnected then (Inl ''Kafka producer is not connected'', isConnected)
      else case library m of
             None \<Rightarrow> (Inr (), isConnected)
           | Some errorMessage \<Rightarrow>
               (Inl (''Failed to send message to Kafka: '' @ errorMessage), isConnected))"

definition sendBatch :: "('m list \<Rightarrow> string option) \<Rightarrow> 'm list \<Rightarrow> bool \<Rightarrow> (string + unit) \<times> bool" where
  "sendBatch library ms isConnected =
     (if \<not> isConnected then (Inl ''Kafka producer is not connected'', isConnected)
      else if length ms = 0 then (Inr (), isConnected)
      else case library ms of
             None \<Rightarrow> (Inr (), isConnected)
           | Some errorMessage \<Rightarrow>
               (Inl (''Failed to send batch messages to Kafka: '' @ errorMessage), isConnected))"

text \<open>The client library as the pipeline meets it during one call.\<close>

record 'm kafka_client =
  on_connect :: "string option"
  on_send :: "'m \<Rightarrow> string option"
  on_sendBatch :: "'m list \<Rightarrow> string option"

text \<open>The \<open>message\<close> of what \<open>execute\<close> throws.\<close>

fun thrown_message :: "string breaker_error \<Rightarrow> string" where
  "thrown_message BreakerOpen = ''Circuit breaker is open''"
| "thrown_message (OperationError text) = text"

text \<open>
  The service's state: its components, \<open>config.enabled\<close> and \<open>config.queue.batchSize\<close>.
\<close>

record 'm Pipeline =
  messageQueue :: "'m MessageQueue"
  circuitBreaker :: CircuitBreaker
  connected :: bool
  healthMetrics :: HealthMetrics
  errorHandler :: "'m FallbackLog"
  enabled :: bool
  batchSize :: int

text \<open>The clock reads of one \<open>processMessage\<close> call: two \<open>getState()\<close>, one \<open>execute\<close>.\<close>

record ingest_clock =
  at_state1 :: int
  at_state2 :: int
  at_send :: exec_clock

text \<open>
  The last part of \<open>processMessage\<close>: enqueue; when \<open>enqueue\<close> returns false, classify
  a fresh error (for the logger only) and write \<open>message\<close> to the fallback log; then
  refresh the queue-depth gauge.
\<close>

definition queueMessage :: "'m \<Rightarrow> 'm Pipeline \<Rightarrow> 'm Pipeline" where
  "queueMessage m p =
     (let (queued, q1) = enqueue m (messageQueue p);
          p1 = p\<lparr>messageQueue := q1\<rparr>;
          p2 = (if \<not> queued
                then p1\<lparr>errorHandler :=
                          logToFallback m ''Queue overflow - message dropped'' (errorHandler p1)\<rparr>
                else p1)
      in p2\<lparr>healthMetrics := setQueueDepth (size_q (messageQueue p2)) (healthMetrics p2)\<rparr>)"

definition processMessage ::
  "ingest_clock \<Rightarrow> 'm kafka_client \<Rightarrow> 'm \<Rightarrow> 'm Pipeline \<Rightarrow> 'm Pipeline" where
  "processMessage clk kafka m p =
     (let h1 = setQueueDepth (size_q (messageQueue p)) (healthMetrics p);
          (st1, b1) = getState (at_state1 clk) (circuitBreaker p);
          h2 = setCircuitBreakerState st1 h1;
          (st2, b2) = getState (at_state2 clk) b1;
          p2 = p\<lparr>healthMetrics := h2, circuitBreaker := b2\<rparr>
      in if st2 = Closed \<and> connected p2 \<and> size_q (messageQueue p2) = 0 then
           (case execute (at_send clk) (send (on_send kafka) m) (connected p2) b2 of
              (Inr _, conn, b3) \<Rightarrow>
                p2\<lparr>circuitBreaker := b3, connected := conn,
                   healthMetrics := incrementSuccess h2\<rparr>
            | (Inl err, conn, b3) \<Rightarrow>
                (let categorizedError = handleError (thrown_message err);
                     p3 = p2\<lparr>circuitBreaker := b3, connected := conn,
                             healthMetrics := incrementFailure h2\<rparr>
                 in if \<not> shouldRetry categorizedError \<and> shouldFallback categorizedError
                    then p3\<lparr>errorHandler :=
                              logToFallback m
                                (''Immediate send failed: '' @ category_value (category categorizedError))
                                (errorHandler p3)\<rparr>
                    else queueMessage m p3))
         else queueMessage m p2)"

text \<open>Ingesting a list of records, one \<open>processMessage\<close> call after the other.\<close>

fun ingest :: "'m kafka_client \<Rightarrow> (ingest_clock \<times> 'm) list \<Rightarrow> 'm Pipeline \<Rightarrow> 'm Pipeline" where
  "ingest kafka [] p = p"
| "ingest kafka ((clk, m) # rest) p = ingest kafka rest (processMessage clk kafka m p)"

text \<open>
  \<open>flushQueuedMessages\<close>. Its clock reads: two \<open>getState()\<close>, the \<open>execute\<close> around
  \<open>connect\<close> when the producer is not connected, and the \<open>execute\<close> around the send.
\<close>

record flush_clock =
  fl_state1 :: int
  fl_state2 :: int
  fl_connect :: exec_clock
  fl_send :: exec_clock

text \<open>The loop that puts a failed batch back, one record at a time.\<close>

fun requeue :: "'m list \<Rightarrow> 'm Pipeline \<Rightarrow> 'm Pipeline" where
  "requeue [] p = p"
| "requeue (m # ms) p =
     (let (requeued, q1) = enqueue m (messageQueue p);
          p1 = p\<lparr>messageQueue := q1\<rparr>
      in requeue ms
           (if \<not> requeued
            then p1\<lparr>errorHandler :=
                      logToFallback m ''Re-queue failed after send error'' (errorHandler p1)\<rparr>
            else p1))"

definition isCritical :: "CategorizedError \<Rightarrow> bool" where
  "isCritical ce = (category ce = authentication \<or> category ce = configuration)"

text \<open>The part of the flush after the connection has been secured.\<close>

definition flushBatch :: "flush_clock \<Rightarrow> 'm kafka_client \<Rightarrow> 'm Pipeline \<Rightarrow> 'm Pipeline" where
  "flushBatch clk kafka p =
     (let (ms, q1) = dequeueBatch (batchSize p) (messageQueue p);
          p1 = p\<lparr>messageQueue := q1\<rparr>
      in if length ms = 0 then p1
         else
           (let operation =
                  (if length ms = 1 then send (on_send kafka) (hd ms)
                   else sendBatch (on_sendBatch kafka) ms);
                p4 =
                  (case execute (fl_send clk) operation (connected p1) (circuitBreaker p1) of
                     (Inr _, conn, b) \<Rightarrow>
                       p1\<lparr>circuitBreaker := b, connected := conn,
                          healthMetrics := incrementSuccess (healthMetrics p1)\<rparr>
                   | (Inl err, conn, b) \<Rightarrow>
                       (let categorizedError = handleError (thrown_message err);
                            p2 = p1\<lparr>circuitBreaker := b, connected := conn,
                                    healthMetrics := incrementFailure (healthMetrics p1)\<rparr>;
                            p3 =
                              (if shouldRetry categorizedError then requeue ms p2
                               else if shouldFallback categorizedError
                               then p2\<lparr>errorHandler :=
                                         logBatchToFallback ms
                                           (''Send failed: '' @ category_value (category categorizedError))
                                           (errorHandler p2)\<rparr>
                               else p2)
                        in if isCritical categorizedError then p3\<lparr>enabled := False\<rparr> else p3))
            in p4\<lparr>healthMetrics := setQueueDepth (size_q (messageQueue p4)) (healthMetrics p4)\<rparr>))"

definition flushQueuedMessages ::
  "flush_clock \<Rightarrow> 'm kafka_client \<Rightarrow> 'm Pipeline \<Rightarrow> 'm Pipeline" where
  "flushQueuedMessages clk kafka p =
     (if size_q (messageQueue p) = 0 then p
      else
        (let (st1, b1) = getState (fl_state1 clk) (circuitBreaker p);
             h1 = setCircuitBreakerState st1 (healthMetrics p);
             (st2, b2) = getState (fl_state2 clk) b1;
             p1 = p\<lparr>healthMetrics := h1, circuitBreaker := b2\<rparr>
         in if st2 = Open then p1
            else if \<not> connected p1 then
              (case execute (fl_connect clk) (connect (on_connect kafka)) (connected p1) b2 of
                 (Inr _, conn, b3) \<Rightarrow>
                   flushBatch clk kafka (p1\<lparr>circuitBreaker := b3, connected := conn\<rparr>)
               | (Inl err, conn, b3) \<Rightarrow>
                   (let categorizedError = handleError (thrown_message err);
                        p2 = p1\<lparr>circuitBreaker := b3, connected := conn\<rparr>
                    in if isCritical categorizedError then p2\<lparr>enabled := False\<rparr> else p2))
            else flushBatch clk kafka p1))"

subsection \<open>Scenario S4 of the specification\<close>

text \<open>
  A queue of capacity 5, the producer not connected, and the breaker \<open>Open\<close> after
  its first failure at time 1000 (threshold 1, base delay 60000). The records are named
  by their message ids \<open>msg-1\<close> to \<open>msg-20\<close> and are ingested at the times 2001 to
  2020. The client library refuses every call.
\<close>

definition overflow_pipeline :: "string Pipeline" where
  "overflow_pipeline =
     \<lparr>messageQueue = \<lparr>messages = [], maxSize = 5\<rparr>,
      circuitBreaker =
        \<lparr>state = Open, failureCount = 1, successCount = 0, lastFailureTime = Some 1000,
         nextAttemptTime = Some 61000, monitoringWindowStart = 0,
         config = \<lparr>failureThreshold = 1, resetTimeout = 60000, monitoringPeriod = 30000\<rparr>\<rparr>,
      connected = False,
      healthMetrics =
        \<lparr>hm_successCount = 0, hm_failureCount = 0, queueDepth = 0, circuitBreakerState = Closed\<rparr>,
      errorHandler = \<lparr>fb_enabled = True, fb_lines = []\<rparr>,
      enabled = True,
      batchSize = 100\<rparr>"

definition ingest_at :: "int \<Rightarrow> ingest_clock" where
  "ingest_at t =
     \<lparr>at_state1 = t, at_state2 = t,
      at_send = \<lparr>at_window = t, at_gate = t, at_stamp = t, at_backoff = t\<rparr>\<rparr>"

definition overflow_records :: "(ingest_clock \<times> string) list" where
  "overflow_records =
     map (\<lambda>(t, m). (ingest_at t, m))
       (zip [2001, 2002, 2003, 2004, 2005, 2006, 2007, 2008, 2009, 2010,
             2011, 2012, 2013, 2014, 2015, 2016, 2017, 2018, 2019, 2020]
            [''msg-1'', ''msg-2'', ''msg-3'', ''msg-4'', ''msg-5'', ''msg-6'', ''msg-7'',
             ''msg-8'', ''msg-9'', ''msg-10'', ''msg-11'', ''msg-12'', ''msg-13'', ''msg-14'',
             ''msg-15'', ''msg-16'', ''msg-17'', ''msg-18'', ''msg-19'', ''msg-20''])"

definition refusing_kafka :: "string \<Rightarrow> 'm kafka_client" where
  "refusing_kafka text =
     \<lparr>on_connect = Some text, on_send = (\<lambda>m. Some text), on_sendBatch = (\<lambda>ms. Some text)\<rparr>"

text \<open>
  A pipeline in its steady state: connected, breaker \<open>Closed\<close>, queue empty, with the
  default sizes of the configuration.
\<close>

definition ready_pipeline :: "string Pipeline" where
  "ready_pipeline =
     \<lparr>messageQueue = \<lparr>messages = [], maxSize = 10000\<rparr>,
      circuitBreaker =
        \<lparr>state = Closed, failureCount = 0, successCount = 0, lastFailureTime = None,
         nextAttemptTime = None, monitoringWindowStart = 0,
         config = \<lparr>failureThreshold = 5, resetTimeout = 60000, monitoringPeriod = 30000\<rparr>\<rparr>,
      connected = True,
      healthMetrics =
        \<lparr>hm_successCount = 0, hm_failureCount = 0, queueDepth = 0, circuitBreakerState = Closed\<rparr>,
      errorHandler = \<lparr>fb_enabled = True, fb_lines = []\<rparr>,
      enabled = True,
      batchSize = 100\<rparr>"

section \<open>Properties of the message queue\<close>

lemma enqueue_messages:
  "messages (snd (enqueue m q)) =
     (if int (length (messages q)) \<ge> maxSize q then tl (messages q) else messages q) @ [m]"
  by (simp add: enqueue_def Let_def)

lemma enqueue_maxSize: "maxSize (snd (enqueue m q)) = maxSize q"
  by (simp add: enqueue_def Let_def)

lemma dequeue_maxSize: "maxSize (snd (dequeue q)) = maxSize q"
  by (simp add: dequeue_def split: list.splits)

lemma dequeueBatch_maxSize: "maxSize (snd (dequeueBatch n q)) = maxSize q"
  by (simp add: dequeueBatch_def Let_def)

lemma enqueue_bounded:
  assumes "0 < maxSize q" "int (length (messages q)) \<le> maxSize q"
  shows "int (length (messages (snd (enqueue m q)))) \<le> maxSize q"
  using assms by (auto simp: enqueue_def Let_def)

lemma dequeue_bounded:
  assumes "int (length (messages q)) \<le> maxSize q"
  shows "int (length (messages (snd (dequeue q)))) \<le> maxSize q"
  using assms by (auto simp: dequeue_def split: list.splits)

lemma dequeueBatch_bounded:
  assumes "int (length (messages q)) \<le> maxSize q"
  shows "int (length (messages (snd (dequeueBatch n q)))) \<le> maxSize q"
  using assms by (auto simp: dequeueBatch_def Let_def)

lemma run_ops_invariant:
  assumes "0 < maxSize q" "int (length (messages q)) \<le> maxSize q"
    and "run_ops ops q = (rs, q')"
  shows "length (messages q') + drops rs + length (removed rs)
           = length (messages q) + length (enqueued ops)
       \<and> int (length (messages q')) \<le> maxSize q
       \<and> maxSize q' = maxSize q
       \<and> subseq (removed rs @ messages q') (messages q @ enqueued ops)"
  using assms
proof (induction ops arbitrary: q rs q')
  case Nil
  then show ?case by simp
next
  case (Cons op ops)
  show ?case
  proof (cases op)
    case (Enqueue m)
    obtain r q1 where e: "enqueue m q = (r, q1)" by (cases "enqueue m q")
    obtain rs1 q2 where r: "run_ops ops q1 = (rs1, q2)" by (cases "run_ops ops q1")
    from Cons.prems(3) Enqueue e r have rs: "rs = Enqueued r # rs1" and q2: "q' = q2"
      by simp_all
    have m1: "maxSize q1 = maxSize q" using e enqueue_maxSize[of m q] by simp
    have b1: "int (length (messages q1)) \<le> maxSize q1"
      using enqueue_bounded[OF Cons.prems(1,2), of m] e m1 by simp
    have ih: "length (messages q2) + drops rs1 + length (removed rs1)
           = length (messages q1) + length (enqueued ops)
       \<and> int (length (messages q2)) \<le> maxSize q1
       \<and> maxSize q2 = maxSize q1
       \<and> subseq (removed rs1 @ messages q2) (messages q1 @ enqueued ops)"
      proof -
      have p1: "0 < maxSize q1" using m1 Cons.prems(1) by simp
      show ?thesis using Cons.IH[OF p1 b1 r] m1 by simp
    qed
    show ?thesis
    proof (cases "int (length (messages q)) \<ge> maxSize q")
      case True
      then have rF: "r = False" and q1m: "messages q1 = tl (messages q) @ [m]"
        using e by (auto simp: enqueue_def Let_def)
      from True Cons.prems(1) obtain x xs where xs: "messages q = x # xs"
        by (cases "messages q") auto
      have "subseq (removed rs1 @ messages q2) (x # xs @ m # enqueued ops)"
        using ih q1m xs subseq_drop_many[of "removed rs1 @ messages q2" "xs @ m # enqueued ops" "[x]"] by simp
      then show ?thesis using ih rF q1m xs rs q2 m1 Enqueue by simp
    next
      case False
      then have rF: "r = True" and q1m: "messages q1 = messages q @ [m]"
        using e by (auto simp: enqueue_def Let_def)
      then show ?thesis using ih rs q2 m1 Enqueue by simp
    qed
  next
    case Dequeue
    obtain r q1 where e: "dequeue q = (r, q1)" by (cases "dequeue q")
    obtain rs1 q2 where r: "run_ops ops q1 = (rs1, q2)" by (cases "run_ops ops q1")
    from Cons.prems(3) Dequeue e r have rs: "rs = Dequeued r # rs1" and q2: "q' = q2"
      by simp_all
    have m1: "maxSize q1 = maxSize q" using e dequeue_maxSize[of q] by simp
    have b1: "int (length (messages q1)) \<le> maxSize q1"
      using dequeue_bounded[OF Cons.prems(2)] e m1 by simp
    have ih: "length (messages q2) + drops rs1 + length (removed rs1)
           = length (messages q1) + length (enqueued ops)
       \<and> int (length (messages q2)) \<le> maxSize q1
       \<and> maxSize q2 = maxSize q1
       \<and> subseq (removed rs1 @ messages q2) (messages q1 @ enqueued ops)"
      proof -
      have p1: "0 < maxSize q1" using m1 Cons.prems(1) by simp
      show ?thesis using Cons.IH[OF p1 b1 r] m1 by simp
    qed
    show ?thesis
    proof (cases "messages q")
      case Nil
      then have "r = None" "q1 = q" using e by (auto simp: dequeue_def)
      then show ?thesis using ih rs q2 Dequeue by simp
    next
      case (Cons x xs)
      then have "r = Some x" "messages q1 = xs" using e by (auto simp: dequeue_def)
      then show ?thesis using ih rs q2 m1 Dequeue Cons by simp
    qed
  next
    case (DequeueBatch n)
    obtain r q1 where e: "dequeueBatch n q = (r, q1)" by (cases "dequeueBatch n q")
    obtain rs1 q2 where r: "run_ops ops q1 = (rs1, q2)" by (cases "run_ops ops q1")
    from Cons.prems(3) DequeueBatch e r have rs: "rs = Batch r # rs1" and q2: "q' = q2"
      by simp_all
    have m1: "maxSize q1 = maxSize q" using e dequeueBatch_maxSize[of n q] by simp
    have b1: "int (length (messages q1)) \<le> maxSize q1"
      using dequeueBatch_bounded[OF Cons.prems(2), of n] e m1 by simp
    have ih: "length (messages q2) + drops rs1 + length (removed rs1)
           = length (messages q1) + length (enqueued ops)
       \<and> int (length (messages q2)) \<le> maxSize q1
       \<and> maxSize q2 = maxSize q1
       \<and> subseq (removed rs1 @ messages q2) (messages q1 @ enqueued ops)"
      proof -
      have p1: "0 < maxSize q1" using m1 Cons.prems(1) by simp
      show ?thesis using Cons.IH[OF p1 b1 r] m1 by simp
    qed
    have split: "messages q = r @ messages q1"
      using e by (auto simp: dequeueBatch_def Let_def split: if_splits)
    have "subseq (r @ removed rs1 @ messages q2) (r @ messages q1 @ enqueued ops)"
      using ih by (simp add: subseq_append')
    then show ?thesis using ih rs q2 m1 DequeueBatch split by simp
  qed
qed


lemma min_step: "min (min (Suc a) c + n) c = min (Suc (a + n)) (c::nat)"
  by arith

lemma run_enqueues_size:
  assumes "0 < maxSize q" "int (length (messages q)) \<le> maxSize q" "only_enqueues ops"
  shows "length (messages (snd (run_ops ops q)))
           = min (length (messages q) + length (enqueued ops)) (nat (maxSize q))"
  using assms
proof (induction ops arbitrary: q)
  case Nil
  then show ?case by simp
next
  case (Cons op ops)
  from Cons.prems(3) obtain m where op: "op = Enqueue m" and rest: "only_enqueues ops"
    by (cases op) simp_all
  let ?q1 = "snd (enqueue m q)"
  have m1: "maxSize ?q1 = maxSize q" by (rule enqueue_maxSize)
  have b1: "int (length (messages ?q1)) \<le> maxSize ?q1"
    using enqueue_bounded[OF Cons.prems(1,2), of m] m1 by simp
  have p1: "0 < maxSize ?q1" using m1 Cons.prems(1) by simp
  have len1: "length (messages ?q1) = min (Suc (length (messages q))) (nat (maxSize q))"
    using Cons.prems(1,2) by (auto simp: enqueue_messages)
  have "length (messages (snd (run_ops ops ?q1)))
          = min (length (messages ?q1) + length (enqueued ops)) (nat (maxSize ?q1))"
    by (rule Cons.IH[OF p1 b1 rest])
  then have "length (messages (snd (run_ops ops ?q1)))
          = min (Suc (length (messages q) + length (enqueued ops))) (nat (maxSize q))"
    using len1 m1 by (simp add: min_step)
  then show ?case using op by (simp add: split_beta)
qed

text \<open>
  Claim C8, as amended. Take a queue built with capacity \<open>C\<close> and any sequence of
  \<open>enqueue\<close>, \<open>dequeue\<close> and \<open>dequeueBatch\<close> calls on it. In the state reached,
  \<open>enqueue\<close> admits the new record, dropping the head first exactly when the size
  equals \<open>C\<close>, and returns true exactly when nothing was dropped; the size is at most
  \<open>C\<close>; the size equals the number of enqueues minus the number of drops minus the
  number of records dequeued, so it is at most \<open>min(N - dequeued, C)\<close> and equals
  \<open>min(N, C)\<close> when nothing was dequeued; and the records dequeued so far, followed by
  those still queued, appear in the order in which they were enqueued.
\<close>

theorem queue_sequence_invariants:
  assumes "new_MessageQueue C = Inr q0" and "run_ops ops q0 = (rs, q)"
  shows "enqueue m q =
           (int (size_q q) < C,
            q\<lparr>messages := (if int (size_q q) = C then tl (messages q) else messages q) @ [m]\<rparr>)
       \<and> int (size_q q) \<le> C
       \<and> size_q q + drops rs + length (removed rs) = length (enqueued ops)
       \<and> size_q q \<le> min (length (enqueued ops) - length (removed rs)) (nat C)
       \<and> (only_enqueues ops \<longrightarrow> size_q q = min (length (enqueued ops)) (nat C))
       \<and> subseq (removed rs @ messages q) (enqueued ops)"
proof -
  from assms(1) have pos: "0 < C" and q0: "q0 = \<lparr>messages = [], maxSize = C\<rparr>"
    by (auto simp: new_MessageQueue_def split: if_splits)
  have p0: "0 < maxSize q0" and b0: "int (length (messages q0)) \<le> maxSize q0"
    using pos q0 by simp_all
  have inv: "length (messages q) + drops rs + length (removed rs)
               = length (messages q0) + length (enqueued ops)
           \<and> int (length (messages q)) \<le> maxSize q0
           \<and> maxSize q = maxSize q0
           \<and> subseq (removed rs @ messages q) (messages q0 @ enqueued ops)"
    by (rule run_ops_invariant[OF p0 b0 assms(2)])
  have cap: "maxSize q = C" using inv q0 by simp
  have bound: "int (size_q q) \<le> C" using inv q0 by (simp add: size_q_def)
  have count: "size_q q + drops rs + length (removed rs) = length (enqueued ops)"
    using inv q0 by (simp add: size_q_def)
  have enq: "enqueue m q =
           (int (size_q q) < C,
            q\<lparr>messages := (if int (size_q q) = C then tl (messages q) else messages q) @ [m]\<rparr>)"
    using bound cap by (auto simp: enqueue_def Let_def size_q_def)
  have upper: "size_q q \<le> min (length (enqueued ops) - length (removed rs)) (nat C)"
    using count bound by auto
  have noDeq: "only_enqueues ops \<longrightarrow> size_q q = min (length (enqueued ops)) (nat C)"
  proof
    assume "only_enqueues ops"
    from run_enqueues_size[OF p0 b0 this] assms(2) q0 show "size_q q = min (length (enqueued ops)) (nat C)"
      by (simp add: size_q_def)
  qed
  have order: "subseq (removed rs @ messages q) (enqueued ops)" using inv q0 by simp
  from enq bound count upper noDeq order show ?thesis by blast
qed

text \<open>The theorem at a queue of capacity 2 with one overflow.\<close>

theorem queue_sequence_invariants_witness:
  "new_MessageQueue 2 = Inr \<lparr>messages = ([] :: string list), maxSize = 2\<rparr>
   \<and> run_ops [Enqueue ''a'', Enqueue ''b'', Enqueue ''c'', Dequeue, Enqueue ''d'', DequeueBatch 5]
        \<lparr>messages = [], maxSize = 2\<rparr>
       = ([Enqueued True, Enqueued True, Enqueued False, Dequeued (Some ''b''), Enqueued True,
           Batch [''c'', ''d'']], \<lparr>messages = [], maxSize = 2\<rparr>)
   \<and> enqueue ''e'' \<lparr>messages = [], maxSize = 2\<rparr> = (True, \<lparr>messages = [''e''], maxSize = 2\<rparr>)
   \<and> subseq [''b'', ''c'', ''d''] [''a'', ''b'', ''c'', ''d'']"
proof -
  have h1: "new_MessageQueue 2 = Inr \<lparr>messages = ([] :: string list), maxSize = 2\<rparr>"
    by (simp add: new_MessageQueue_def)
  have h2: "run_ops [Enqueue ''a'', Enqueue ''b'', Enqueue ''c'', Dequeue, Enqueue ''d'', DequeueBatch 5]
        \<lparr>messages = [], maxSize = 2\<rparr>
       = ([Enqueued True, Enqueued True, Enqueued False, Dequeued (Some ''b''), Enqueued True,
           Batch [''c'', ''d'']], \<lparr>messages = [], maxSize = 2\<rparr>)"
    by (simp add: enqueue_def dequeue_def dequeueBatch_def)
  show ?thesis
    using h1 h2 queue_sequence_invariants[OF h1 h2, of "''e''"] by (simp add: size_q_def)
qed

text \<open>
  Claim C8 as stated gives \<open>min(N - dequeues, C)\<close> for the final size. With capacity 1,
  two enqueues and one dequeue leave the queue empty, while the formula gives 1.
\<close>

theorem queue_final_size_counterexample:
  "new_MessageQueue 1 = Inr \<lparr>messages = ([] :: string list), maxSize = 1\<rparr>
   \<and> run_ops [Enqueue ''msg-1'', Enqueue ''msg-2'', Dequeue] \<lparr>messages = [], maxSize = 1\<rparr>
       = ([Enqueued True, Enqueued False, Dequeued (Some ''msg-2'')],
          \<lparr>messages = [], maxSize = 1\<rparr>)
   \<and> size_q \<lparr>messages = ([] :: string list), maxSize = 1\<rparr> \<noteq> min (2 - 1) 1"
  by (simp add: new_MessageQueue_def enqueue_def dequeue_def size_q_def)

section \<open>Properties of the circuit breaker\<close>

lemma checkMonitoringWindow_keeps:
  "state (checkMonitoringWindow now b) = state b"
  "nextAttemptTime (checkMonitoringWindow now b) = nextAttemptTime b"
  "config (checkMonitoringWindow now b) = config b"
  "lastFailureTime (checkMonitoringWindow now b) = lastFailureTime b"
  by (simp_all add: checkMonitoringWindow_def Let_def)

lemma checkMonitoringWindow_count:
  "state b \<noteq> Closed \<Longrightarrow> failureCount (checkMonitoringWindow now b) = failureCount b"
  by (simp add: checkMonitoringWindow_def Let_def)

lemma checkMonitoringWindow_inv:
  "breaker_inv b \<Longrightarrow> breaker_inv (checkMonitoringWindow now b)"
  by (auto simp: breaker_inv_def checkMonitoringWindow_def Let_def)

lemma backoffTime_delay_for: "backoffTime b = delay_for (config b) (failureCount b)"
  by (simp add: backoffTime_def delay_for_def Let_def)

lemma onSuccess_inv: "breaker_inv b \<Longrightarrow> state b \<noteq> Open \<Longrightarrow> breaker_inv (onSuccess b)"
  by (auto simp: breaker_inv_def onSuccess_def Let_def)

lemma onFailure_inv: "breaker_inv b \<Longrightarrow> state b \<noteq> Open \<Longrightarrow> breaker_inv (onFailure s n b)"
  by (cases "state b") (auto simp: breaker_inv_def onFailure_def setNextAttemptTime_def Let_def)

lemma execute_gate_fst: "fst (execute_gate clk b) = checkMonitoringWindow (at_window clk) b"
  by (simp add: execute_gate_def Let_def)

lemma execute_gate_Some:
  assumes "execute_gate clk b = (b1, Some b2)"
  shows "state b2 \<noteq> Open \<and> config b2 = config b
       \<and> (state b \<noteq> Closed \<longrightarrow> failureCount b2 = failureCount b \<and> state b2 = HalfOpen)
       \<and> (state b = Closed \<longrightarrow> state b2 = Closed)
       \<and> (breaker_inv b \<longrightarrow> breaker_inv b2)"
proof -
  let ?c = "checkMonitoringWindow (at_window clk) b"
  have i: "breaker_inv b \<Longrightarrow> breaker_inv ?c" by (rule checkMonitoringWindow_inv)
  show ?thesis
  proof (cases "state b")
    case Closed
    then have "b2 = ?c" using assms
      by (auto simp: execute_gate_def Let_def checkMonitoringWindow_keeps split: if_splits)
    then show ?thesis using Closed i by (simp add: checkMonitoringWindow_keeps)
  next
    case Open
    then have "b2 = ?c\<lparr>state := HalfOpen\<rparr>" using assms
      by (auto simp: execute_gate_def Let_def checkMonitoringWindow_keeps split: if_splits)
    moreover have "breaker_inv b \<Longrightarrow> breaker_inv (?c\<lparr>state := HalfOpen\<rparr>)"
      using i Open by (auto simp: breaker_inv_def checkMonitoringWindow_keeps)
    ultimately show ?thesis using Open
      by (simp add: checkMonitoringWindow_keeps checkMonitoringWindow_count)
  next
    case HalfOpen
    then have "b2 = ?c" using assms
      by (auto simp: execute_gate_def Let_def checkMonitoringWindow_keeps split: if_splits)
    then show ?thesis using HalfOpen i
      by (simp add: checkMonitoringWindow_keeps checkMonitoringWindow_count)
  qed
qed

lemma execute_inv:
  assumes "breaker_inv b"
  shows "breaker_inv (snd (snd (execute clk operation w b)))"
proof (cases "execute_gate clk b")
  case (Pair b1 g)
  have b1: "b1 = checkMonitoringWindow (at_window clk) b"
    using Pair execute_gate_fst[of clk b] by simp
  show ?thesis
  proof (cases g)
    case None
    then show ?thesis using Pair b1 assms
      by (simp add: execute_def checkMonitoringWindow_inv)
  next
    case (Some b2)
    from execute_gate_Some[of clk b b1 b2] Pair Some assms
    have "state b2 \<noteq> Open" "breaker_inv b2" by simp_all
    then show ?thesis using Pair Some
      by (auto simp: execute_def onSuccess_inv onFailure_inv split: prod.splits sum.splits)
  qed
qed

lemma call_inv: "breaker_inv b \<Longrightarrow> breaker_inv (call c b)"
  by (cases c) (simp_all add: execute_inv getState_def getMetrics_def Let_def checkMonitoringWindow_inv)

lemma new_inv: "new_CircuitBreaker t0 cfg = Inr b \<Longrightarrow> breaker_inv b"
  by (auto simp: new_CircuitBreaker_def breaker_inv_def split: if_splits)

text \<open>
  The breaker after \<open>execute\<close> depends on the operation only through whether it
  resolved, so reachability covers calls with any operation on any world.
\<close>

lemma execute_breaker_by_outcome:
  "snd (snd (execute clk operation w b)) = call (Execute clk (\<not> isl (fst (operation w)))) b"
  by (cases "operation w"; cases "fst (operation w)")
     (auto simp: execute_def settled_def split: prod.splits option.splits)

lemma reachable_execute:
  "reachable b \<Longrightarrow> reachable (snd (snd (execute clk operation w b)))"
  unfolding execute_breaker_by_outcome by (rule reachable.called)

lemma reachable_inv: "reachable b \<Longrightarrow> breaker_inv b"
  by (induction rule: reachable.induct) (simp_all add: new_inv call_inv)


lemma delay_for_mono:
  assumes "0 < resetTimeout cfg" "k \<le> k'"
  shows "delay_for cfg k \<le> delay_for cfg k'"
proof -
  have "nat (max 0 (k - failureThreshold cfg)) \<le> nat (max 0 (k' - failureThreshold cfg))"
    using assms(2) by simp
  then have pw: "(2::int) ^ nat (max 0 (k - failureThreshold cfg))
               \<le> 2 ^ nat (max 0 (k' - failureThreshold cfg))"
    by (rule power_increasing) simp
  have "min ((2::int) ^ nat (max 0 (k - failureThreshold cfg))) 8
               \<le> min (2 ^ nat (max 0 (k' - failureThreshold cfg))) 8"
    by (rule min.mono[OF pw order_refl])
  then show ?thesis
    unfolding delay_for_def using assms(1) by (simp add: mult_left_mono)
qed

lemma delay_for_bounds:
  assumes "0 < resetTimeout cfg"
  shows "resetTimeout cfg \<le> delay_for cfg k \<and> delay_for cfg k \<le> 8 * resetTimeout cfg"
proof -
  let ?m = "min ((2::int) ^ nat (max 0 (k - failureThreshold cfg))) 8"
  have "(1::int) \<le> 2 ^ nat (max 0 (k - failureThreshold cfg))" by simp
  then have lo: "1 \<le> ?m" and hi: "?m \<le> 8" by simp_all
  have "resetTimeout cfg * 1 \<le> resetTimeout cfg * ?m"
    using assms lo by (intro mult_left_mono) simp_all
  moreover have "resetTimeout cfg * ?m \<le> resetTimeout cfg * 8"
    using assms hi by (intro mult_left_mono) simp_all
  ultimately show ?thesis unfolding delay_for_def by simp
qed

lemma delay_for_threshold: "delay_for cfg (failureThreshold cfg) = resetTimeout cfg"
  by (simp add: delay_for_def)

lemma onFailure_outcome:
  assumes "breaker_inv b2" "state b2 \<noteq> Open"
  shows "config (onFailure s n b2) = config b2
       \<and> (state (onFailure s n b2) = Open
            \<and> nextAttemptTime (onFailure s n b2)
                = Some (n + delay_for (config b2) (failureCount (onFailure s n b2)))
            \<and> failureThreshold (config b2) \<le> failureCount (onFailure s n b2)
            \<and> (state b2 = HalfOpen \<longrightarrow> failureCount (onFailure s n b2) = failureCount b2 + 1)
            \<and> (state b2 = Closed \<longrightarrow> failureCount (onFailure s n b2) = failureThreshold (config b2))
          \<or> state (onFailure s n b2) = Closed \<and> state b2 = Closed)"
  using assms
  by (cases "state b2")
     (auto simp: onFailure_def setNextAttemptTime_def backoffTime_delay_for Let_def breaker_inv_def)

lemma failure_outcome:
  assumes "breaker_inv b" "execute clk operation w b = (Inl (OperationError e), w', b')"
  shows "config b' = config b \<and> breaker_inv b'
       \<and> (state b' = Open
            \<and> nextAttemptTime b' = Some (at_backoff clk + delay_for (config b) (failureCount b'))
            \<and> failureThreshold (config b) \<le> failureCount b'
            \<and> (state b \<noteq> Closed \<longrightarrow> failureCount b' = failureCount b + 1)
            \<and> (state b = Closed \<longrightarrow> failureCount b' = failureThreshold (config b))
          \<or> state b' = Closed \<and> state b = Closed)"
proof -
  obtain b1 g where gate: "execute_gate clk b = (b1, g)" by (cases "execute_gate clk b")
  from assms(2) gate obtain b2 where g: "g = Some b2"
    by (cases g) (auto simp: execute_def)
  from assms(2) gate g have b': "b' = onFailure (at_stamp clk) (at_backoff clk) b2"
    by (auto simp: execute_def split: prod.splits sum.splits)
  from execute_gate_Some[of clk b b1 b2] gate g assms(1)
  have f: "state b2 \<noteq> Open" "config b2 = config b" "breaker_inv b2"
    "state b \<noteq> Closed \<longrightarrow> failureCount b2 = failureCount b \<and> state b2 = HalfOpen"
    "state b = Closed \<longrightarrow> state b2 = Closed"
    by simp_all
  have inv': "breaker_inv b'" using b' f by (simp add: onFailure_inv)
  from onFailure_outcome[OF f(3) f(1), of "at_stamp clk" "at_backoff clk"] b' f inv'
  show ?thesis by (cases "state b") auto
qed

lemma rejected_outcome:
  assumes "execute clk operation w b = (Inl BreakerOpen, w', b')"
  shows "b' = checkMonitoringWindow (at_window clk) b"
  using assms execute_gate_fst[of clk b]
  by (auto simp: execute_def split: prod.splits option.splits sum.splits)

lemma open_delays_sorted:
  assumes "breaker_inv b" "list_all rejects cs"
  shows "sorted (open_delays cs b)
       \<and> (\<forall>d \<in> set (open_delays cs b).
             resetTimeout (config b) \<le> d \<and> d \<le> 8 * resetTimeout (config b)
             \<and> (state b \<noteq> Closed \<longrightarrow> delay_for (config b) (failureCount b + 1) \<le> d))"
  using assms
proof (induction cs arbitrary: b)
  case Nil
  then show ?case by simp
next
  case (Cons c cs)
  have rt: "0 < resetTimeout (config b)" using Cons.prems by (simp add: breaker_inv_def)
  have rest_rej: "list_all rejects cs" using Cons.prems(2) by simp
  have window: "sorted (open_delays cs b')
       \<and> (\<forall>d \<in> set (open_delays cs b').
             resetTimeout (config b) \<le> d \<and> d \<le> 8 * resetTimeout (config b)
             \<and> (state b \<noteq> Closed \<longrightarrow> delay_for (config b) (failureCount b + 1) \<le> d))"
    if b': "b' = checkMonitoringWindow now b" for b' now
  proof -
    have inv': "breaker_inv b'" using b' Cons.prems(1) by (simp add: checkMonitoringWindow_inv)
    have same: "config b' = config b" "state b' = state b"
      "state b \<noteq> Closed \<Longrightarrow> failureCount b' = failureCount b"
      using b' by (simp_all add: checkMonitoringWindow_keeps checkMonitoringWindow_count)
    show ?thesis using Cons.IH[OF inv' rest_rej] same by auto
  qed
  show ?case
  proof (cases c)
    case (GetState now)
    then show ?thesis using window[of "checkMonitoringWindow now b" now]
      by (simp add: getState_def Let_def)
  next
    case (GetMetrics now)
    then show ?thesis using window[of "checkMonitoringWindow now b" now]
      by (simp add: getMetrics_def Let_def)
  next
    case (Execute clk ok)
    then have ok: "ok = False" using Cons.prems(2) by simp
    obtain r u b' where ex: "execute clk (settled False) () b = (r, u, b')"
      by (cases "execute clk (settled False) () b")
    show ?thesis
    proof (cases r)
      case (Inr v)
      then have False using ex
        by (auto simp: execute_def settled_def split: prod.splits option.splits)
      then show ?thesis ..
    next
      case (Inl err)
      show ?thesis
      proof (cases err)
        case BreakerOpen
        with ex Inl have b': "b' = checkMonitoringWindow (at_window clk) b"
          using rejected_outcome[of clk "settled False" "()" b u b'] by simp
        have "open_delays (c # cs) b = open_delays cs b'"
          using ex Inl BreakerOpen Execute ok by simp
        then show ?thesis using window[OF b'] by simp
      next
        case (OperationError e)
        from failure_outcome[OF Cons.prems(1), of clk "settled False" "()" e u b'] ex Inl OperationError
        have fo: "config b' = config b" "breaker_inv b'"
          "state b' = Open
              \<and> nextAttemptTime b' = Some (at_backoff clk + delay_for (config b) (failureCount b'))
              \<and> failureThreshold (config b) \<le> failureCount b'
              \<and> (state b \<noteq> Closed \<longrightarrow> failureCount b' = failureCount b + 1)
              \<and> (state b = Closed \<longrightarrow> failureCount b' = failureThreshold (config b))
            \<or> state b' = Closed \<and> state b = Closed"
          by simp_all
        note ih = Cons.IH[OF fo(2) rest_rej]
        from fo(3) show ?thesis
        proof
          assume op: "state b' = Open
              \<and> nextAttemptTime b' = Some (at_backoff clk + delay_for (config b) (failureCount b'))
              \<and> failureThreshold (config b) \<le> failureCount b'
              \<and> (state b \<noteq> Closed \<longrightarrow> failureCount b' = failureCount b + 1)
              \<and> (state b = Closed \<longrightarrow> failureCount b' = failureThreshold (config b))"
          let ?d = "delay_for (config b) (failureCount b')"
          have eq: "open_delays (c # cs) b = ?d # open_delays cs b'"
            using ex Inl OperationError op Execute ok by simp
          have step: "?d \<le> delay_for (config b) (failureCount b' + 1)"
            using rt by (intro delay_for_mono) simp_all
          have rest: "\<forall>d \<in> set (open_delays cs b'). ?d \<le> d"
            using ih op fo(1) step by fastforce
          have hd: "resetTimeout (config b) \<le> ?d \<and> ?d \<le> 8 * resetTimeout (config b)"
            using delay_for_bounds[OF rt] by simp
          have hd2: "state b \<noteq> Closed \<longrightarrow> delay_for (config b) (failureCount b + 1) \<le> ?d"
            using op by simp
          show ?thesis
            unfolding eq using ih rest hd hd2 fo(1) by auto
        next
          assume cl: "state b' = Closed \<and> state b = Closed"
          have "open_delays (c # cs) b = open_delays cs b'"
            using ex Inl OperationError cl Execute ok by simp
          then show ?thesis using ih fo(1) cl by auto
        qed
      qed
    qed
  qed
qed

lemmas breaker_eval =
  execute_def execute_gate_def checkMonitoringWindow_def shouldAttemptReset_def
  onSuccess_def onFailure_def setNextAttemptTime_def backoffTime_def settled_def
  getState_def getMetrics_def Let_def

text \<open>
  Claim C6. Let the breaker be \<open>Open\<close> with \<open>nextAttemptTime = t\<close>, and let the
  clock read at the gate be \<open>at_gate\<close>. If \<open>at_gate < t\<close>, \<open>execute\<close> throws the
  breaker-open error, the world is untouched and the outcome does not mention the
  operation: it was not invoked. Otherwise the gate hands on the breaker in state
  \<open>HalfOpen\<close>, the operation is applied to the world, and its outcome is settled from
  \<open>HalfOpen\<close>.
\<close>

theorem execute_open_gate:
  assumes "state b = Open" and "nextAttemptTime b = Some t"
  shows "execute clk operation w b =
           (if at_gate clk < t
            then (Inl BreakerOpen, w, checkMonitoringWindow (at_window clk) b)
            else case operation w of
                   (Inr result, w1) \<Rightarrow>
                     (Inr result, w1,
                      onSuccess ((checkMonitoringWindow (at_window clk) b)\<lparr>state := HalfOpen\<rparr>))
                 | (Inl err, w1) \<Rightarrow>
                     (Inl (OperationError err), w1,
                      onFailure (at_stamp clk) (at_backoff clk)
                        ((checkMonitoringWindow (at_window clk) b)\<lparr>state := HalfOpen\<rparr>)))
       \<and> state (checkMonitoringWindow (at_window clk) b) = Open
       \<and> snd (execute_gate clk b) =
           (if at_gate clk < t then None
            else Some ((checkMonitoringWindow (at_window clk) b)\<lparr>state := HalfOpen\<rparr>))"
proof -
  let ?b1 = "checkMonitoringWindow (at_window clk) b"
  have st: "state ?b1 = Open" and nx: "nextAttemptTime ?b1 = Some t"
    using assms by (simp_all add: checkMonitoringWindow_keeps)
  have gate: "execute_gate clk b =
                (?b1, if at_gate clk < t then None else Some (?b1\<lparr>state := HalfOpen\<rparr>))"
    using st nx by (auto simp: execute_gate_def Let_def shouldAttemptReset_def)
  show ?thesis
    using gate st by (simp add: execute_def)
qed

text \<open>
  Claim C7. For a reachable breaker: whenever an operation's failure leaves the circuit
  \<open>Open\<close>, the failure count is at least the threshold and \<open>nextAttemptTime\<close> is the
  clock read plus \<open>resetTimeout * min(2^(failureCount - failureThreshold), 8)\<close>; and along
  every history of calls in which no operation resolves, the delays chosen are
  non-decreasing and none exceeds \<open>8 * resetTimeout\<close>.
\<close>

theorem open_transition_backoff:
  assumes "reachable b" and "list_all rejects cs"
  shows "(execute clk operation w b = (Inl (OperationError e), w', b') \<and> state b' = Open \<longrightarrow>
            failureThreshold (config b') \<le> failureCount b'
            \<and> nextAttemptTime b' =
                Some (at_backoff clk
                      + resetTimeout (config b')
                        * min (2 ^ nat (failureCount b' - failureThreshold (config b'))) 8))
       \<and> sorted (open_delays cs b)
       \<and> (\<forall>d \<in> set (open_delays cs b). d \<le> 8 * resetTimeout (config b))"
proof -
  have inv: "breaker_inv b" using assms(1) by (rule reachable_inv)
  have first: "failureThreshold (config b') \<le> failureCount b'
            \<and> nextAttemptTime b' =
                Some (at_backoff clk
                      + resetTimeout (config b')
                        * min (2 ^ nat (failureCount b' - failureThreshold (config b'))) 8)"
    if ex: "execute clk operation w b = (Inl (OperationError e), w', b')" and op: "state b' = Open"
  proof -
    from failure_outcome[OF inv ex] op
    have c: "config b' = config b"
      and n: "nextAttemptTime b' = Some (at_backoff clk + delay_for (config b) (failureCount b'))"
      and t: "failureThreshold (config b) \<le> failureCount b'"
      by auto
    from t have "max 0 (failureCount b' - failureThreshold (config b))
                   = failureCount b' - failureThreshold (config b)"
      by simp
    then show ?thesis using c n t by (simp add: delay_for_def)
  qed
  from open_delays_sorted[OF inv assms(2)] first show ?thesis by blast
qed

text \<open>
  Claim C10. \<open>getState\<close> and \<open>getMetrics\<close> leave the breaker as
  \<open>checkMonitoringWindow\<close> leaves it. Once the monitoring period has elapsed since the
  window start, that is a breaker whose window starts now and, in state \<open>Closed\<close>,
  whose counters are 0, which is also what \<open>getMetrics\<close> reports. Hence there is a
  reachable breaker on which two \<open>getMetrics\<close> calls in a row report different
  failure counts.
\<close>

theorem observers_mutate:
  assumes "monitoringPeriod (config b) \<le> now - monitoringWindowStart b"
  shows "snd (getState now b) = checkMonitoringWindow now b
       \<and> snd (getMetrics now b) = checkMonitoringWindow now b
       \<and> monitoringWindowStart (checkMonitoringWindow now b) = now
       \<and> (state b = Closed \<longrightarrow>
             failureCount (checkMonitoringWindow now b) = 0
             \<and> successCount (checkMonitoringWindow now b) = 0
             \<and> m_failureCount (fst (getMetrics now b)) = 0
             \<and> m_successCount (fst (getMetrics now b)) = 0)
       \<and> (\<exists>b0 t1 t2. reachable b0
             \<and> m_failureCount (fst (getMetrics t1 b0))
                 \<noteq> m_failureCount (fst (getMetrics t2 (snd (getMetrics t1 b0)))))"
proof -
  let ?cfg = "\<lparr>failureThreshold = 5, resetTimeout = 60000, monitoringPeriod = 30000\<rparr>"
  let ?new = "\<lparr>state = Closed, failureCount = 0, successCount = 0,
                lastFailureTime = None, nextAttemptTime = None,
                monitoringWindowStart = 0, config = ?cfg\<rparr>"
  let ?clk = "\<lparr>at_window = 1000, at_gate = 1000, at_stamp = 1000, at_backoff = 1000\<rparr>"
  let ?b0 = "call (Execute ?clk False) ?new"
  have "new_CircuitBreaker 0 ?cfg = Inr ?new" by (simp add: new_CircuitBreaker_def)
  then have "reachable ?new" by (rule reachable.constructed)
  then have r: "reachable ?b0" by (rule reachable.called)
  have b0: "?b0 = ?new\<lparr>failureCount := 1, lastFailureTime := Some 1000\<rparr>"
    by (simp add: execute_def execute_gate_def checkMonitoringWindow_def settled_def
          onFailure_def Let_def)
  have "m_failureCount (fst (getMetrics 2000 ?b0)) = 1"
    unfolding b0 by (simp add: getMetrics_def checkMonitoringWindow_def Let_def)
  moreover have "m_failureCount (fst (getMetrics 31000 (snd (getMetrics 2000 ?b0)))) = 0"
    unfolding b0 by (simp add: getMetrics_def checkMonitoringWindow_def Let_def)
  ultimately have ex: "\<exists>b0 t1 t2. reachable b0
             \<and> m_failureCount (fst (getMetrics t1 b0))
                 \<noteq> m_failureCount (fst (getMetrics t2 (snd (getMetrics t1 b0))))"
    using r by (metis zero_neq_one)
  have rest: "snd (getState now b) = checkMonitoringWindow now b
       \<and> snd (getMetrics now b) = checkMonitoringWindow now b
       \<and> monitoringWindowStart (checkMonitoringWindow now b) = now
       \<and> (state b = Closed \<longrightarrow>
             failureCount (checkMonitoringWindow now b) = 0
             \<and> successCount (checkMonitoringWindow now b) = 0
             \<and> m_failureCount (fst (getMetrics now b)) = 0
             \<and> m_successCount (fst (getMetrics now b)) = 0)"
    using assms by (simp add: getState_def getMetrics_def checkMonitoringWindow_def Let_def)
  from rest ex show ?thesis by blast
qed


text \<open>
  An open breaker with \<open>nextAttemptTime = 1010\<close>; the operation counts its calls.
  At time 500 the call is refused and the count stays 0; at time 2000 the operation
  runs once and its success closes the circuit.
\<close>

theorem execute_open_gate_witness:
  "execute \<lparr>at_window = 500, at_gate = 500, at_stamp = 500, at_backoff = 500\<rparr>
     (\<lambda>n::nat. (Inl ''send failed'' :: string + unit, Suc n)) 0
     \<lparr>state = Open, failureCount = 1, successCount = 0, lastFailureTime = Some 10,
      nextAttemptTime = Some 1010, monitoringWindowStart = 0,
      config = \<lparr>failureThreshold = 1, resetTimeout = 1000, monitoringPeriod = 5000\<rparr>\<rparr>
   = (Inl BreakerOpen, 0,
      \<lparr>state = Open, failureCount = 1, successCount = 0, lastFailureTime = Some 10,
       nextAttemptTime = Some 1010, monitoringWindowStart = 0,
       config = \<lparr>failureThreshold = 1, resetTimeout = 1000, monitoringPeriod = 5000\<rparr>\<rparr>)
   \<and> execute \<lparr>at_window = 2000, at_gate = 2000, at_stamp = 2003, at_backoff = 2003\<rparr>
     (\<lambda>n::nat. (Inr () :: string + unit, Suc n)) 0
     \<lparr>state = Open, failureCount = 1, successCount = 0, lastFailureTime = Some 10,
      nextAttemptTime = Some 1010, monitoringWindowStart = 0,
      config = \<lparr>failureThreshold = 1, resetTimeout = 1000, monitoringPeriod = 5000\<rparr>\<rparr>
   = (Inr (), 1,
      \<lparr>state = Closed, failureCount = 0, successCount = 1, lastFailureTime = Some 10,
       nextAttemptTime = None, monitoringWindowStart = 0,
       config = \<lparr>failureThreshold = 1, resetTimeout = 1000, monitoringPeriod = 5000\<rparr>\<rparr>)"
proof -
  let ?b = "\<lparr>state = Open, failureCount = 1, successCount = 0, lastFailureTime = Some 10,
      nextAttemptTime = Some 1010, monitoringWindowStart = 0,
      config = \<lparr>failureThreshold = 1, resetTimeout = 1000, monitoringPeriod = 5000\<rparr>\<rparr>"
  have h1: "state ?b = Open" by simp
  have h2: "nextAttemptTime ?b = Some 1010" by simp
  show ?thesis
    using execute_open_gate[OF h1 h2,
            of "\<lparr>at_window = 500, at_gate = 500, at_stamp = 500, at_backoff = 500\<rparr>"
               "\<lambda>n::nat. (Inl ''send failed'' :: string + unit, Suc n)" 0]
          execute_open_gate[OF h1 h2,
            of "\<lparr>at_window = 2000, at_gate = 2000, at_stamp = 2003, at_backoff = 2003\<rparr>"
               "\<lambda>n::nat. (Inr () :: string + unit, Suc n)" 0]
    by (simp add: checkMonitoringWindow_def onSuccess_def Let_def)
qed

text \<open>
  Threshold 1 and base delay 1000: failures at 10, 2000, 5000, 10000 and 20000 (with a
  refused call and a metrics read in between) choose the delays 1000, 2000, 4000, 8000, 8000.
\<close>

theorem open_transition_backoff_witness:
  "reachable \<lparr>state = Closed, failureCount = 0, successCount = 0, lastFailureTime = None,
      nextAttemptTime = None, monitoringWindowStart = 0,
      config = \<lparr>failureThreshold = 1, resetTimeout = 1000, monitoringPeriod = 5000\<rparr>\<rparr>
   \<and> execute \<lparr>at_window = 10, at_gate = 10, at_stamp = 10, at_backoff = 10\<rparr> (settled False) ()
       \<lparr>state = Closed, failureCount = 0, successCount = 0, lastFailureTime = None,
        nextAttemptTime = None, monitoringWindowStart = 0,
        config = \<lparr>failureThreshold = 1, resetTimeout = 1000, monitoringPeriod = 5000\<rparr>\<rparr>
     = (Inl (OperationError ()), (),
        \<lparr>state = Open, failureCount = 1, successCount = 0, lastFailureTime = Some 10,
         nextAttemptTime = Some 1010, monitoringWindowStart = 0,
         config = \<lparr>failureThreshold = 1, resetTimeout = 1000, monitoringPeriod = 5000\<rparr>\<rparr>)
   \<and> Some (1010::int) = Some (10 + 1000 * min (2 ^ nat (1 - 1)) 8)
   \<and> open_delays
        [Execute \<lparr>at_window = 10, at_gate = 10, at_stamp = 10, at_backoff = 10\<rparr> False,
         Execute \<lparr>at_window = 500, at_gate = 500, at_stamp = 500, at_backoff = 500\<rparr> False,
         GetMetrics 1500,
         Execute \<lparr>at_window = 2000, at_gate = 2000, at_stamp = 2000, at_backoff = 2000\<rparr> False,
         Execute \<lparr>at_window = 5000, at_gate = 5000, at_stamp = 5000, at_backoff = 5000\<rparr> False,
         Execute \<lparr>at_window = 10000, at_gate = 10000, at_stamp = 10000, at_backoff = 10000\<rparr> False,
         Execute \<lparr>at_window = 20000, at_gate = 20000, at_stamp = 20000, at_backoff = 20000\<rparr> False]
        \<lparr>state = Closed, failureCount = 0, successCount = 0, lastFailureTime = None,
         nextAttemptTime = None, monitoringWindowStart = 0,
         config = \<lparr>failureThreshold = 1, resetTimeout = 1000, monitoringPeriod = 5000\<rparr>\<rparr>
     = [1000, 2000, 4000, 8000, 8000]
   \<and> sorted [1000, 2000, 4000, 8000, 8000 :: int]"
proof -
  let ?cfg = "\<lparr>failureThreshold = 1, resetTimeout = 1000, monitoringPeriod = 5000\<rparr>"
  let ?b = "\<lparr>state = Closed, failureCount = 0, successCount = 0, lastFailureTime = None,
      nextAttemptTime = None, monitoringWindowStart = 0, config = ?cfg\<rparr>"
  let ?b' = "\<lparr>state = Open, failureCount = 1, successCount = 0, lastFailureTime = Some 10,
         nextAttemptTime = Some 1010, monitoringWindowStart = 0, config = ?cfg\<rparr>"
  let ?clk = "\<lparr>at_window = 10, at_gate = 10, at_stamp = 10, at_backoff = 10\<rparr>"
  let ?cs = "[Execute \<lparr>at_window = 10, at_gate = 10, at_stamp = 10, at_backoff = 10\<rparr> False,
         Execute \<lparr>at_window = 500, at_gate = 500, at_stamp = 500, at_backoff = 500\<rparr> False,
         GetMetrics 1500,
         Execute \<lparr>at_window = 2000, at_gate = 2000, at_stamp = 2000, at_backoff = 2000\<rparr> False,
         Execute \<lparr>at_window = 5000, at_gate = 5000, at_stamp = 5000, at_backoff = 5000\<rparr> False,
         Execute \<lparr>at_window = 10000, at_gate = 10000, at_stamp = 10000, at_backoff = 10000\<rparr> False,
         Execute \<lparr>at_window = 20000, at_gate = 20000, at_stamp = 20000, at_backoff = 20000\<rparr> False]"
  have "new_CircuitBreaker 0 ?cfg = Inr ?b" by (simp add: new_CircuitBreaker_def)
  then have r: "reachable ?b" by (rule reachable.constructed)
  have l: "list_all rejects ?cs" by simp
  have e: "execute ?clk (settled False) () ?b = (Inl (OperationError ()), (), ?b')"
    by (simp add: breaker_eval)
  have d: "open_delays ?cs ?b = [1000, 2000, 4000, 8000, 8000]"
    by (simp add: breaker_eval)
  show ?thesis
    using r e d open_transition_backoff[OF r l, of ?clk "settled False" "()" "()" "()" ?b']
    by simp
qed

text \<open>
  A closed breaker with one failure and two successes, read 31000 ms after its window
  began with a period of 30000 ms.
\<close>

theorem observers_mutate_witness:
  "getMetrics 31000
     \<lparr>state = Closed, failureCount = 1, successCount = 2, lastFailureTime = Some 1000,
      nextAttemptTime = None, monitoringWindowStart = 0,
      config = \<lparr>failureThreshold = 5, resetTimeout = 60000, monitoringPeriod = 30000\<rparr>\<rparr>
   = (\<lparr>m_state = Closed, m_failureCount = 0, m_successCount = 0,
       m_lastFailureTime = Some 1000, m_nextAttemptTime = None\<rparr>,
      \<lparr>state = Closed, failureCount = 0, successCount = 0, lastFailureTime = Some 1000,
       nextAttemptTime = None, monitoringWindowStart = 31000,
       config = \<lparr>failureThreshold = 5, resetTimeout = 60000, monitoringPeriod = 30000\<rparr>\<rparr>)"
proof -
  let ?b = "\<lparr>state = Closed, failureCount = 1, successCount = 2, lastFailureTime = Some 1000,
      nextAttemptTime = None, monitoringWindowStart = 0,
      config = \<lparr>failureThreshold = 5, resetTimeout = 60000, monitoringPeriod = 30000\<rparr>\<rparr>"
  have h: "monitoringPeriod (config ?b) \<le> 31000 - monitoringWindowStart ?b" by simp
  have s: "state ?b = Closed" by simp
  show ?thesis
    using observers_mutate[OF h] s
    by (simp add: getMetrics_def checkMonitoringWindow_def Let_def)
qed

section \<open>Properties of the event builder\<close>

declare build.simps [simp del]

lemma build_base:
  "event (buildBaseEvent env c n) = n"
  "status (dimensions (buildBaseEvent env c n)) = None"
  "trigger_type (dimensions (buildBaseEvent env c n)) = Some (determineTriggerType (workflowData c) (mode c))"
  "duration_ms (metrics (buildBaseEvent env c n)) = None"
  "msg_type (buildBaseEvent env c n) = ''track''"
  "timestamp (buildBaseEvent env c n) = toISOString env (clock_now env)"
  "messageId (buildBaseEvent env c n) = fresh_uuid env"
  "userId (buildBaseEvent env c n) = ctx_userId c"
  "anonymousId (buildBaseEvent env c n) =
     (if truthy (ctx_userId c) then None else Some (generateAnonymousId (executionId c)))"
  by (simp_all add: buildBaseEvent_def Let_def)

lemmas build_defs =
  buildWorkflowStartEvent_def buildWorkflowCompleteEvent_def buildWorkflowErrorEvent_def
  buildWorkflowCancelEvent_def

lemma build_event:
  "event (build k env c) =
     (case k of Started \<Rightarrow> ''Workflow Started'' | Completed \<Rightarrow> ''Workflow Completed''
      | Failed \<Rightarrow> ''Workflow Failed'' | Cancelled \<Rightarrow> ''Workflow Cancelled'')"
  by (cases k) (simp_all add: build.simps build_defs build_base Let_def split: option.splits)

lemma build_status:
  "status (dimensions (build k env c)) =
     (case k of Started \<Rightarrow> None
      | Completed \<Rightarrow> map_option (\<lambda>run. mapExecutionStatus (run_status run)) (runData c)
      | Failed \<Rightarrow> Some ''error'' | Cancelled \<Rightarrow> Some ''cancelled'')"
  by (cases k) (simp_all add: build.simps build_defs build_base Let_def split: option.splits)

lemma build_trigger_type:
  "trigger_type (dimensions (build k env c)) = Some (determineTriggerType (workflowData c) (mode c))"
  by (cases k) (simp_all add: build.simps build_defs build_base Let_def split: option.splits)

lemma build_duration:
  "duration_ms (metrics (build k env c)) =
     (if k = Started \<or> runData c = None then None
      else calculateDuration (startedAt c) (finishedAt c))"
  by (cases k) (simp_all add: build.simps build_defs build_base Let_def split: option.splits)

lemma build_envelope:
  "msg_type (build k env c) = ''track''"
  "timestamp (build k env c) = toISOString env (clock_now env)"
  "messageId (build k env c) = fresh_uuid env"
  "userId (build k env c) = ctx_userId c"
  "anonymousId (build k env c) =
     (if truthy (ctx_userId c) then None else Some (generateAnonymousId (executionId c)))"
  by (cases k; simp add: build.simps build_defs build_base Let_def split: option.splits)+


lemma find_first:
  assumes "list_all (\<lambda>x. \<not> P x) pre" "P n"
  shows "find P (pre @ n # post) = Some n"
  using assms by (induction pre) simp_all

lemma find_none:
  assumes "list_all (\<lambda>x. \<not> P x) ns"
  shows "find P ns = None"
  using assms by (induction ns) simp_all

text \<open>
  Claim C3, as amended. In the record of any of the four build functions,
  \<open>dimensions.trigger_type\<close> is the mode for the modes \<open>manual\<close>, \<open>webhook\<close> and
  \<open>cli\<close>. For every other mode, \<open>trigger\<close> included, the first node whose type
  contains \<open>trigger\<close> or \<open>Trigger\<close> decides: \<open>schedule\<close> if its type contains
  \<open>cron\<close> or \<open>schedule\<close>, else \<open>webhook\<close> if it contains \<open>webhook\<close>, else
  \<open>trigger\<close>; and when no node has such a type, or there are no nodes, it is the mode.
\<close>

theorem trigger_type_rule:
  "(mode c = manual \<or> mode c = webhook \<or> mode c = cli \<longrightarrow>
      trigger_type (dimensions (build k env c)) = Some (mode_value (mode c)))
   \<and> (mode c \<noteq> manual \<and> mode c \<noteq> webhook \<and> mode c \<noteq> cli
        \<and> nodes (workflowData c) = Some (pre @ n # post)
        \<and> list_all (\<lambda>x. \<not> isTriggerNode x) pre \<and> isTriggerNode n \<longrightarrow>
      trigger_type (dimensions (build k env c)) =
        Some (if str_includes (node_type n) ''cron'' \<or> str_includes (node_type n) ''schedule''
              then ''schedule''
              else if str_includes (node_type n) ''webhook'' then ''webhook''
              else ''trigger''))
   \<and> (mode c \<noteq> manual \<and> mode c \<noteq> webhook \<and> mode c \<noteq> cli
        \<and> (case nodes (workflowData c) of
              None \<Rightarrow> True
            | Some ns \<Rightarrow> list_all (\<lambda>x. \<not> isTriggerNode x) ns) \<longrightarrow>
      trigger_type (dimensions (build k env c)) = Some (mode_value (mode c)))"
proof -
  have a: "trigger_type (dimensions (build k env c))
             = Some (determineTriggerType (workflowData c) (mode c))"
    by (rule build_trigger_type)
  have p1: "mode c = manual \<or> mode c = webhook \<or> mode c = cli \<longrightarrow>
      determineTriggerType (workflowData c) (mode c) = mode_value (mode c)"
    by (auto simp: determineTriggerType_def)
  have p2: "mode c \<noteq> manual \<and> mode c \<noteq> webhook \<and> mode c \<noteq> cli
        \<and> nodes (workflowData c) = Some (pre @ n # post)
        \<and> list_all (\<lambda>x. \<not> isTriggerNode x) pre \<and> isTriggerNode n \<longrightarrow>
      determineTriggerType (workflowData c) (mode c) =
        (if str_includes (node_type n) ''cron'' \<or> str_includes (node_type n) ''schedule''
              then ''schedule''
              else if str_includes (node_type n) ''webhook'' then ''webhook''
              else ''trigger'')"
    by (simp add: determineTriggerType_def firstTriggerNode_def find_first)
  have p3: "mode c \<noteq> manual \<and> mode c \<noteq> webhook \<and> mode c \<noteq> cli
        \<and> (case nodes (workflowData c) of
              None \<Rightarrow> True
            | Some ns \<Rightarrow> list_all (\<lambda>x. \<not> isTriggerNode x) ns) \<longrightarrow>
      determineTriggerType (workflowData c) (mode c) = mode_value (mode c)"
    by (auto simp: determineTriggerType_def firstTriggerNode_def find_none split: option.splits)
  from a p1 p2 p3 show ?thesis by simp
qed

lemmas fixture_defs = mockContext_def mockWorkflowData_def mockEnv_def sample_dates_def

text \<open>
  The fixture in mode \<open>manual\<close>; in mode \<open>trigger\<close> with a start node followed by a
  cron trigger; and in mode \<open>retry\<close> with no trigger node.
\<close>

theorem trigger_type_rule_witness:
  "trigger_type (dimensions (build Started mockEnv mockContext)) = Some ''manual''
   \<and> trigger_type (dimensions (build Started mockEnv
        (mockContext\<lparr>mode := trigger,
           workflowData := mockWorkflowData\<lparr>nodes :=
             Some [\<lparr>node_id = ''node-1'', node_name = ''Start'', node_type = ''n8n-nodes-base.start''\<rparr>,
                   \<lparr>node_id = ''trigger-1'', node_name = ''Schedule Trigger'',
                    node_type = ''n8n-nodes-base.cronTrigger''\<rparr>]\<rparr>\<rparr>))) = Some ''schedule''
   \<and> trigger_type (dimensions (build Failed mockEnv (mockContext\<lparr>mode := retry\<rparr>))) = Some ''retry''"
proof -
  let ?start = "\<lparr>node_id = ''node-1'', node_name = ''Start'', node_type = ''n8n-nodes-base.start''\<rparr>"
  let ?cron = "\<lparr>node_id = ''trigger-1'', node_name = ''Schedule Trigger'',
                    node_type = ''n8n-nodes-base.cronTrigger''\<rparr>"
  let ?c2 = "mockContext\<lparr>mode := trigger,
           workflowData := mockWorkflowData\<lparr>nodes := Some [?start, ?cron]\<rparr>\<rparr>"
  have h1: "mode mockContext = manual" by (simp add: mockContext_def)
  have h2: "mode ?c2 \<noteq> manual \<and> mode ?c2 \<noteq> webhook \<and> mode ?c2 \<noteq> cli
        \<and> nodes (workflowData ?c2) = Some ([?start] @ ?cron # [])
        \<and> list_all (\<lambda>x. \<not> isTriggerNode x) [?start] \<and> isTriggerNode ?cron"
    by (simp add: isTriggerNode_def)
  have h3: "mode (mockContext\<lparr>mode := retry\<rparr>) \<noteq> manual
        \<and> mode (mockContext\<lparr>mode := retry\<rparr>) \<noteq> webhook
        \<and> mode (mockContext\<lparr>mode := retry\<rparr>) \<noteq> cli
        \<and> (case nodes (workflowData (mockContext\<lparr>mode := retry\<rparr>)) of
              None \<Rightarrow> True
            | Some ns \<Rightarrow> list_all (\<lambda>x. \<not> isTriggerNode x) ns)"
    by (simp add: fixture_defs isTriggerNode_def)
  have cron: "str_includes (node_type ?cron) ''cron''" by simp
  show ?thesis
    using trigger_type_rule[where c = mockContext and k = Started and env = mockEnv]
          trigger_type_rule[where c = ?c2 and pre = "[?start]" and n = ?cron and post = "[]"
            and k = Started and env = mockEnv]
          trigger_type_rule[where c = "mockContext\<lparr>mode := retry\<rparr>" and k = Failed
            and env = mockEnv]
          h1 h2 h3 cron
    by simp
qed

text \<open>
  Claim C3 as stated fails twice. In mode \<open>trigger\<close>, a workflow whose only node has
  type \<open>n8n-nodes-base.cron\<close> contains \<open>cron\<close> but gets \<open>trigger\<close>, not
  \<open>schedule\<close>. In mode \<open>retry\<close>, a workflow with a cron trigger gets \<open>schedule\<close>,
  not the mode.
\<close>

theorem trigger_type_counterexample:
  "str_includes ''n8n-nodes-base.cron'' ''cron''
   \<and> trigger_type (dimensions (build Started mockEnv
        (mockContext\<lparr>mode := trigger,
           workflowData := mockWorkflowData\<lparr>nodes :=
             Some [\<lparr>node_id = ''node-1'', node_name = ''Cron'',
                    node_type = ''n8n-nodes-base.cron''\<rparr>]\<rparr>\<rparr>))) = Some ''trigger''
   \<and> trigger_type (dimensions (build Started mockEnv
        (mockContext\<lparr>mode := retry,
           workflowData := mockWorkflowData\<lparr>nodes :=
             Some [\<lparr>node_id = ''trigger-1'', node_name = ''Schedule Trigger'',
                    node_type = ''n8n-nodes-base.cronTrigger''\<rparr>]\<rparr>\<rparr>))) = Some ''schedule''
   \<and> mode_value retry = ''retry''"
  unfolding build_trigger_type
  by (simp add: determineTriggerType_def firstTriggerNode_def isTriggerNode_def fixture_defs)


lemma mapExecutionStatus_success: "mapExecutionStatus (Some ''success'') = ''success''"
  by (simp add: mapExecutionStatus_def truthy_def statusMap_def)

text \<open>
  Claim C4, as amended. In every built record: \<open>Workflow Started\<close> has no status,
  \<open>Workflow Failed\<close> has status \<open>error\<close>, \<open>Workflow Cancelled\<close> has status
  \<open>cancelled\<close>, and \<open>Workflow Completed\<close> has the mapped status of the run summary
  when there is one (\<open>success\<close> for a run whose status is \<open>success\<close>) and no status
  when there is none. Every record carries one of the four event names.
\<close>

theorem event_status_agreement:
  "(event (build k env c) = ''Workflow Started'' \<longrightarrow> status (dimensions (build k env c)) = None)
   \<and> (event (build k env c) = ''Workflow Failed'' \<longrightarrow>
        status (dimensions (build k env c)) = Some ''error'')
   \<and> (event (build k env c) = ''Workflow Cancelled'' \<longrightarrow>
        status (dimensions (build k env c)) = Some ''cancelled'')
   \<and> (event (build k env c) = ''Workflow Completed'' \<longrightarrow>
        status (dimensions (build k env c))
          = map_option (\<lambda>run. mapExecutionStatus (run_status run)) (runData c))
   \<and> (event (build k env c) = ''Workflow Completed''
        \<and> map_option run_status (runData c) = Some (Some ''success'') \<longrightarrow>
        status (dimensions (build k env c)) = Some ''success'')
   \<and> event (build k env c)
        \<in> set [''Workflow Started'', ''Workflow Completed'', ''Workflow Failed'', ''Workflow Cancelled'']"
proof -
  have ok: "mapExecutionStatus (Some ''success'') = ''success''" by (rule mapExecutionStatus_success)
  show ?thesis
    unfolding build_event build_status using ok by (cases k) auto
qed

text \<open>
  The four kinds on the fixture, the completed one with a successful run.
\<close>

theorem event_status_agreement_witness:
  "event (build Started mockEnv mockContext) = ''Workflow Started''
   \<and> status (dimensions (build Started mockEnv mockContext)) = None
   \<and> event (build Failed mockEnv mockContext) = ''Workflow Failed''
   \<and> status (dimensions (build Failed mockEnv mockContext)) = Some ''error''
   \<and> event (build Cancelled mockEnv mockContext) = ''Workflow Cancelled''
   \<and> status (dimensions (build Cancelled mockEnv mockContext)) = Some ''cancelled''
   \<and> event (build Completed mockEnv
        (mockContext\<lparr>runData := Some \<lparr>run_status = Some ''success'', run_error = None\<rparr>\<rparr>))
       = ''Workflow Completed''
   \<and> status (dimensions (build Completed mockEnv
        (mockContext\<lparr>runData := Some \<lparr>run_status = Some ''success'', run_error = None\<rparr>\<rparr>)))
       = Some ''success''"
proof -
  let ?c = "mockContext\<lparr>runData := Some \<lparr>run_status = Some ''success'', run_error = None\<rparr>\<rparr>"
  have e: "event (build Started mockEnv mockContext) = ''Workflow Started''"
    "event (build Failed mockEnv mockContext) = ''Workflow Failed''"
    "event (build Cancelled mockEnv mockContext) = ''Workflow Cancelled''"
    "event (build Completed mockEnv ?c) = ''Workflow Completed''"
    "map_option run_status (runData ?c) = Some (Some ''success'')"
    by (simp_all add: build_event)
  show ?thesis
    using e
      event_status_agreement[of Started mockEnv mockContext]
      event_status_agreement[of Failed mockEnv mockContext]
      event_status_agreement[of Cancelled mockEnv mockContext]
      event_status_agreement[of Completed mockEnv ?c]
    by (simp add: mapExecutionStatus_success)
qed

text \<open>
  Claim C4 as stated fails for \<open>Workflow Completed\<close>: built from a run whose status is
  \<open>error\<close> the record has status \<open>error\<close>, and built without a run summary it has
  no status.
\<close>

theorem completed_status_counterexample:
  "event (build Completed mockEnv
     (mockContext\<lparr>runData := Some \<lparr>run_status = Some ''error'', run_error = None\<rparr>\<rparr>))
     = ''Workflow Completed''
   \<and> status (dimensions (build Completed mockEnv
     (mockContext\<lparr>runData := Some \<lparr>run_status = Some ''error'', run_error = None\<rparr>\<rparr>)))
     = Some ''error''
   \<and> status (dimensions (build Completed mockEnv mockContext)) = None"
  unfolding build_event build_status
  by (simp add: mapExecutionStatus_def truthy_def statusMap_def mockContext_def)

text \<open>
  Claim C5, as amended. When \<open>metrics.duration_ms\<close> is present, both times of the
  context are present and the value is \<open>finishedAt - startedAt\<close> in milliseconds; it is
  non-negative exactly when \<open>finishedAt\<close> is not earlier than \<open>startedAt\<close>.
  \<open>properties.finished_at\<close> is the same \<open>finishedAt\<close>, formatted. For
  2023-01-01T10:00:00Z and 2023-01-01T10:01:30Z the value is 90000.
\<close>

theorem duration_is_difference:
  "(duration_ms (metrics (build k env c)) = Some d \<longrightarrow>
      (\<exists>s f. startedAt c = Some s \<and> finishedAt c = Some f \<and> d = f - s
             \<and> (0 \<le> d \<longleftrightarrow> s \<le> f)))
   \<and> finished_at (properties (build k env c)) = map_option (toISOString env) (finishedAt c)
   \<and> calculateDuration (Some 1672567200000) (Some 1672567290000) = Some 90000"
proof -
  have "\<exists>s f. startedAt c = Some s \<and> finishedAt c = Some f \<and> d = f - s \<and> (0 \<le> d \<longleftrightarrow> s \<le> f)"
    if "duration_ms (metrics (build k env c)) = Some d"
    using that
    by (auto simp: build_duration calculateDuration_def split: if_splits option.splits)
  moreover have "finished_at (properties (build k env c)) = map_option (toISOString env) (finishedAt c)"
    by (cases k) (simp_all add: build.simps build_defs buildBaseEvent_def Let_def split: option.splits)
  moreover have "calculateDuration (Some 1672567200000) (Some 1672567290000) = Some 90000"
    by (simp add: calculateDuration_def)
  ultimately show ?thesis by blast
qed

text \<open>
  Scenario S2: the fixture, completed with a run summary.
\<close>

theorem duration_is_difference_witness:
  "duration_ms (metrics (build Completed mockEnv
     (mockContext\<lparr>runData := Some \<lparr>run_status = Some ''success'', run_error = None\<rparr>\<rparr>)))
     = Some 90000
   \<and> startedAt mockContext = Some 1672567200000
   \<and> finishedAt mockContext = Some 1672567290000
   \<and> (90000::int) = 1672567290000 - 1672567200000"
proof -
  let ?c = "mockContext\<lparr>runData := Some \<lparr>run_status = Some ''success'', run_error = None\<rparr>\<rparr>"
  have h: "duration_ms (metrics (build Completed mockEnv ?c)) = Some 90000"
    unfolding build_duration by (simp add: calculateDuration_def mockContext_def)
  show ?thesis
    using h duration_is_difference[of Completed mockEnv ?c 90000]
    by (simp add: mockContext_def)
qed

text \<open>
  Claim C5 as stated says the value is never negative. With the fixture's two times
  swapped it is -90000.
\<close>

theorem negative_duration_counterexample:
  "duration_ms (metrics (build Completed mockEnv
     (mockContext\<lparr>runData := Some \<lparr>run_status = Some ''success'', run_error = None\<rparr>,
                   startedAt := Some 1672567290000, finishedAt := Some 1672567200000\<rparr>)))
     = Some (- 90000)"
  unfolding build_duration by (simp add: calculateDuration_def mockContext_def)

text \<open>
  Claim C9. Let the environment be sound (\<open>uuidv4()\<close> returns a UUID that the
  validator's expression accepts, and the current time formats to a non-empty string
  that parses as a date) and let the context's user id, if given, be non-empty. Then the
  record of each of the four build functions passes \<open>validateEvent\<close>: its type is
  \<open>track\<close>, its event name is non-empty, its time stamp parses, its message id is a
  UUID, exactly one of \<open>userId\<close> and \<open>anonymousId\<close> is present, and without a user
  id \<open>anonymousId\<close> is \<open>anon_\<close> followed by the first 8 characters of the
  execution id.
\<close>

theorem built_events_validate:
  assumes "uuidRegex_test (fresh_uuid env)"
    and "parseDate env (toISOString env (clock_now env)) \<noteq> None"
    and "toISOString env (clock_now env) \<noteq> []"
    and "ctx_userId c \<noteq> Some []"
  shows "validateEvent env (build k env c)
       \<and> msg_type (build k env c) = ''track''
       \<and> event (build k env c) \<noteq> []
       \<and> parseDate env (timestamp (build k env c)) \<noteq> None
       \<and> uuidRegex_test (messageId (build k env c))
       \<and> ((userId (build k env c) = None) \<noteq> (anonymousId (build k env c) = None))
       \<and> (ctx_userId c = None \<longrightarrow>
            anonymousId (build k env c) = Some (''anon_'' @ take 8 (executionId c)))"
proof -
  have ev: "event (build k env c) \<noteq> []" by (cases k) (simp_all add: build_event)
  have id: "messageId (build k env c) \<noteq> []"
    using assms(1) by (auto simp: build_envelope uuidRegex_test_def)
  have who: "truthy (userId (build k env c)) \<or> truthy (anonymousId (build k env c))"
    by (simp add: build_envelope truthy_def generateAnonymousId_def)
  have valid: "validateEvent env (build k env c)"
    using ev id who assms(1,2,3) by (simp add: validateEvent_def build_envelope)
  have one: "(userId (build k env c) = None) \<noteq> (anonymousId (build k env c) = None)"
    using assms(4) by (cases "ctx_userId c") (auto simp: build_envelope truthy_def)
  have anon: "ctx_userId c = None \<longrightarrow>
            anonymousId (build k env c) = Some (''anon_'' @ take 8 (executionId c))"
    by (simp add: build_envelope truthy_def generateAnonymousId_def)
  from valid ev one anon assms show ?thesis by (simp add: build_envelope)
qed

text \<open>
  The fixture without a user id: the record validates and is anonymous.
\<close>

theorem built_events_validate_witness:
  "uuidRegex_test (fresh_uuid mockEnv)
   \<and> parseDate mockEnv (toISOString mockEnv (clock_now mockEnv)) = Some 1672574400000
   \<and> validateEvent mockEnv (build Started mockEnv (mockContext\<lparr>ctx_userId := None\<rparr>))
   \<and> userId (build Started mockEnv (mockContext\<lparr>ctx_userId := None\<rparr>)) = None
   \<and> anonymousId (build Started mockEnv (mockContext\<lparr>ctx_userId := None\<rparr>)) = Some ''anon_exec-456''"
proof -
  let ?c = "mockContext\<lparr>ctx_userId := None\<rparr>"
  have h1: "uuidRegex_test (fresh_uuid mockEnv)"
    by (simp add: mockEnv_def uuidRegex_test_def isHex_def)
  have h2: "parseDate mockEnv (toISOString mockEnv (clock_now mockEnv)) = Some 1672574400000"
    by (simp add: mockEnv_def sample_dates_def)
  then have h2': "parseDate mockEnv (toISOString mockEnv (clock_now mockEnv)) \<noteq> None" by simp
  have h3: "toISOString mockEnv (clock_now mockEnv) \<noteq> []"
    by (simp add: mockEnv_def sample_dates_def)
  have h4: "ctx_userId ?c \<noteq> Some []" by simp
  have ex: "executionId ?c = ''exec-456''" by (simp add: mockContext_def)
  show ?thesis
    using h1 h2 ex built_events_validate[OF h1 h2' h3 h4, of Started]
    by (simp add: build_envelope)
qed

section \<open>Properties of the classifier and the pipeline\<close>

lemmas pipeline_eval =
  processMessage_def queueMessage_def enqueue_def logToFallback_def size_q_def
  setQueueDepth_def setCircuitBreakerState_def getState_def checkMonitoringWindow_def
  Let_def

text \<open>
  On a full queue, \<open>queueMessage\<close> drops the head and appends the new record, and the
  line it writes to the fallback log carries the new record.
\<close>

lemma queueMessage_overflow:
  assumes "int (length (messages (messageQueue p))) \<ge> maxSize (messageQueue p)"
    and "fb_enabled (errorHandler p)"
  shows "messages (messageQueue (queueMessage m p)) = tl (messages (messageQueue p)) @ [m]
       \<and> fb_lines (errorHandler (queueMessage m p))
           = fb_lines (errorHandler p) @ [Line ''Queue overflow - message dropped'' m]"
  using assms by (simp add: queueMessage_def enqueue_def logToFallback_def Let_def)

text \<open>
  Claim C1, evaluated on scenario S4. After the twenty records the queue holds
  \<open>msg-16\<close> to \<open>msg-20\<close> in order, as the claim says. The fallback log, however,
  holds \<open>msg-6\<close> to \<open>msg-20\<close>: each overflow logged the record that had just been
  admitted, not the one that was dropped. The dropped records \<open>msg-1\<close> to \<open>msg-5\<close>
  are in neither place, and \<open>msg-16\<close> to \<open>msg-20\<close> are in both.
\<close>

theorem overflow_logs_admitted_record:
  "messages (messageQueue (ingest (refusing_kafka ''ECONNREFUSED'') overflow_records overflow_pipeline))
     = [''msg-16'', ''msg-17'', ''msg-18'', ''msg-19'', ''msg-20'']
   \<and> fb_lines (errorHandler (ingest (refusing_kafka ''ECONNREFUSED'') overflow_records overflow_pipeline))
     = map (Line ''Queue overflow - message dropped'')
         [''msg-6'', ''msg-7'', ''msg-8'', ''msg-9'', ''msg-10'', ''msg-11'', ''msg-12'', ''msg-13'',
          ''msg-14'', ''msg-15'', ''msg-16'', ''msg-17'', ''msg-18'', ''msg-19'', ''msg-20'']"
  by (simp add: overflow_records_def overflow_pipeline_def ingest_at_def pipeline_eval)


lemma serialization_verdict:
  assumes "str_includes (toLowerCase e) ''serialization'' \<or> str_includes (toLowerCase e) ''json''
           \<or> str_includes (toLowerCase e) ''parse'' \<or> str_includes (toLowerCase e) ''stringify''"
    and "\<not> isConfigurationError (toLowerCase e)" and "\<not> isAuthenticationError (toLowerCase e)"
    and "\<not> isConnectionError (toLowerCase e)" and "\<not> isTimeoutError (toLowerCase e)"
  shows "categorizeError e = verdict serialization medium ''Message serialization failed'' e False False"
proof -
  have "isSerializationError (toLowerCase e)"
    using assms(1) by (auto simp: isSerializationError_def)
  then show ?thesis
    using assms(2-5) by (simp add: categorizeError_def Let_def)
qed

lemma flushBatch_not_retried:
  assumes "dequeueBatch (batchSize p) (messageQueue p) = (ms, q1)" and "ms \<noteq> []"
    and "execute (fl_send clk)
           (if length ms = 1 then send (on_send kafka) (hd ms) else sendBatch (on_sendBatch kafka) ms)
           (connected p) (circuitBreaker p) = (Inl err, conn, b)"
    and "handleError (thrown_message err) = ce"
    and "\<not> shouldRetry ce" and "\<not> shouldFallback ce" and "\<not> isCritical ce"
  shows "messageQueue (flushBatch clk kafka p) = q1
       \<and> errorHandler (flushBatch clk kafka p) = errorHandler p
       \<and> enabled (flushBatch clk kafka p) = enabled p"
  using assms by (simp add: flushBatch_def Let_def)

lemma processMessage_queued:
  assumes "getState (at_state1 clk) (circuitBreaker p) = (st1, b1)"
    and "getState (at_state2 clk) b1 = (Closed, b2)"
    and "connected p" and "size_q (messageQueue p) = 0" and "0 < maxSize (messageQueue p)"
    and "execute (at_send clk) (send (on_send kafka) m) True b2 = (Inl err, conn, b3)"
    and "handleError (thrown_message err) = ce"
    and "\<not> shouldFallback ce"
  shows "messages (messageQueue (processMessage clk kafka m p)) = [m]
       \<and> errorHandler (processMessage clk kafka m p) = errorHandler p"
  using assms
  by (simp add: processMessage_def queueMessage_def enqueue_def size_q_def Let_def)

text \<open>
  The three lemmas above give the code's behaviour in general: the classifier's
  verdict for a message whose first matching category is serialization, the flush that
  drops a batch after such a failure, and the immediate send that queues the record
  after it.
\<close>

lemmas classifier_eval =
  categorizeError_def toLowerCase_def lowerChar_def isConfigurationError_def
  isAuthenticationError_def isConnectionError_def isTimeoutError_def isSerializationError_def
  verdict_def

lemmas flush_eval =
  flushQueuedMessages_def flushBatch_def dequeueBatch_def incrementFailure_def

text \<open>
  Claim C2, evaluated on an immediate send that fails with a serialization error. The
  pipeline is connected, its breaker is \<open>Closed\<close> and its queue is empty; the library
  fails with \<open>JSON parse error\<close>, which the producer rethrows with its prefix. The
  classifier answers as the claim says: serialization, medium, no retry, no fallback. Yet
  \<open>processMessage\<close> does not drop the record: afterwards it is in the queue. The next
  flush sends it a second time (the failure counter reaches 2) and only then drops it,
  which is what a flush does at once with a record that was queued from the start.
\<close>

theorem serialization_failure_is_queued:
  "categorizeError ''Failed to send message to Kafka: JSON parse error''
     = verdict serialization medium ''Message serialization failed''
         ''Failed to send message to Kafka: JSON parse error'' False False
   \<and> messages (messageQueue
        (processMessage (ingest_at 1000) (refusing_kafka ''JSON parse error'') ''msg-1'' ready_pipeline))
       = [''msg-1'']
   \<and> fb_lines (errorHandler
        (processMessage (ingest_at 1000) (refusing_kafka ''JSON parse error'') ''msg-1'' ready_pipeline))
       = []
   \<and> hm_failureCount (healthMetrics
        (processMessage (ingest_at 1000) (refusing_kafka ''JSON parse error'') ''msg-1'' ready_pipeline))
       = 1
   \<and> hm_failureCount (healthMetrics
        (flushQueuedMessages
           \<lparr>fl_state1 = 6000, fl_state2 = 6000, fl_connect = at_send (ingest_at 6000),
            fl_send = at_send (ingest_at 6000)\<rparr>
           (refusing_kafka ''JSON parse error'')
           (processMessage (ingest_at 1000) (refusing_kafka ''JSON parse error'') ''msg-1''
              ready_pipeline)))
       = 2
   \<and> messages (messageQueue
        (flushQueuedMessages
           \<lparr>fl_state1 = 6000, fl_state2 = 6000, fl_connect = at_send (ingest_at 6000),
            fl_send = at_send (ingest_at 6000)\<rparr>
           (refusing_kafka ''JSON parse error'')
           (processMessage (ingest_at 1000) (refusing_kafka ''JSON parse error'') ''msg-1''
              ready_pipeline)))
       = []
   \<and> messages (messageQueue
        (flushQueuedMessages
           \<lparr>fl_state1 = 6000, fl_state2 = 6000, fl_connect = at_send (ingest_at 6000),
            fl_send = at_send (ingest_at 6000)\<rparr>
           (refusing_kafka ''JSON parse error'')
           (ready_pipeline\<lparr>messageQueue := \<lparr>messages = [''msg-1''], maxSize = 10000\<rparr>\<rparr>)))
       = []
   \<and> fb_lines (errorHandler
        (flushQueuedMessages
           \<lparr>fl_state1 = 6000, fl_state2 = 6000, fl_connect = at_send (ingest_at 6000),
            fl_send = at_send (ingest_at 6000)\<rparr>
           (refusing_kafka ''JSON parse error'')
           (ready_pipeline\<lparr>messageQueue := \<lparr>messages = [''msg-1''], maxSize = 10000\<rparr>\<rparr>)))
       = []"
proof -
  let ?k = "refusing_kafka ''JSON parse error'' :: string kafka_client"
  let ?fclk = "\<lparr>fl_state1 = 6000, fl_state2 = 6000, fl_connect = at_send (ingest_at 6000),
            fl_send = at_send (ingest_at 6000)\<rparr>"
  let ?b = "circuitBreaker ready_pipeline"
  have v: "categorizeError ''Failed to send message to Kafka: JSON parse error''
             = verdict serialization medium ''Message serialization failed''
                 ''Failed to send message to Kafka: JSON parse error'' False False"
    by (simp add: classifier_eval)
  have p: "processMessage (ingest_at 1000) ?k ''msg-1'' ready_pipeline
             = ready_pipeline
                 \<lparr>messageQueue := \<lparr>messages = [''msg-1''], maxSize = 10000\<rparr>,
                  circuitBreaker := ?b\<lparr>failureCount := 1, lastFailureTime := Some 1000\<rparr>,
                  healthMetrics :=
                    \<lparr>hm_successCount = 0, hm_failureCount = 1, queueDepth = 1,
                     circuitBreakerState = Closed\<rparr>\<rparr>"
    by (simp add: ready_pipeline_def refusing_kafka_def ingest_at_def send_def handleError_def v
          verdict_def incrementFailure_def pipeline_eval breaker_eval)
  have f1: "flushQueuedMessages ?fclk ?k
              (processMessage (ingest_at 1000) ?k ''msg-1'' ready_pipeline)
            = ready_pipeline
                 \<lparr>circuitBreaker := ?b\<lparr>failureCount := 2, lastFailureTime := Some 6000\<rparr>,
                  healthMetrics :=
                    \<lparr>hm_successCount = 0, hm_failureCount = 2, queueDepth = 0,
                     circuitBreakerState = Closed\<rparr>\<rparr>"
    unfolding p
    by (simp add: ready_pipeline_def refusing_kafka_def ingest_at_def send_def handleError_def v
          verdict_def isCritical_def flush_eval pipeline_eval breaker_eval)
  have f2: "flushQueuedMessages ?fclk ?k
              (ready_pipeline\<lparr>messageQueue := \<lparr>messages = [''msg-1''], maxSize = 10000\<rparr>\<rparr>)
            = ready_pipeline
                 \<lparr>circuitBreaker := ?b\<lparr>failureCount := 1, lastFailureTime := Some 6000\<rparr>,
                  healthMetrics :=
                    \<lparr>hm_successCount = 0, hm_failureCount = 1, queueDepth = 0,
                     circuitBreakerState = Closed\<rparr>\<rparr>"
    by (simp add: ready_pipeline_def refusing_kafka_def ingest_at_def send_def handleError_def v
          verdict_def isCritical_def flush_eval pipeline_eval breaker_eval)
  have c1: "messages (messageQueue (processMessage (ingest_at 1000) ?k ''msg-1'' ready_pipeline))
              = [''msg-1'']"
    and c2: "fb_lines (errorHandler (processMessage (ingest_at 1000) ?k ''msg-1'' ready_pipeline))
              = []"
    and c3: "hm_failureCount (healthMetrics
               (processMessage (ingest_at 1000) ?k ''msg-1'' ready_pipeline)) = 1"
    unfolding p by (simp_all add: ready_pipeline_def)
  have c4: "hm_failureCount (healthMetrics
               (flushQueuedMessages ?fclk ?k
                  (processMessage (ingest_at 1000) ?k ''msg-1'' ready_pipeline))) = 2"
    and c5: "messages (messageQueue
               (flushQueuedMessages ?fclk ?k
                  (processMessage (ingest_at 1000) ?k ''msg-1'' ready_pipeline))) = []"
    unfolding f1 by (simp_all add: ready_pipeline_def)
  have c6: "messages (messageQueue
               (flushQueuedMessages ?fclk ?k
                  (ready_pipeline\<lparr>messageQueue := \<lparr>messages = [''msg-1''], maxSize = 10000\<rparr>\<rparr>)))
              = []"
    and c7: "fb_lines (errorHandler
               (flushQueuedMessages ?fclk ?k
                  (ready_pipeline\<lparr>messageQueue := \<lparr>messages = [''msg-1''], maxSize = 10000\<rparr>\<rparr>)))
              = []"
    unfolding f2 by (simp_all add: ready_pipeline_def)
  from v c1 c2 c3 c4 c5 c6 c7 show ?thesis by blast
qed

end
